theory Spec2Isabelle
  imports Complex_Main "HOL-Library.Sublist" "HOL-Library.Monad_Syntax"
begin

text \<open>
  An image organiser in the browser, in two variants that share the data model, the
  derived view and the sidebar callbacks:
  \<^item> the offline app (\<open>src/unnamed/part_000\<close>), with multi-select, the spoken commands of
    \<open>recognition.onresult\<close> and the local \<open>analyzeImage\<close> of \<open>src/unnamed/part_003\<close>;
  \<^item> the connected app (\<open>src/unnamed/part_001\<close>), with the tool calls of
    \<open>handleVoiceCommand\<close> and the remote \<open>analyzeImage\<close> (second file held in
    \<open>src/components/ImageOverlay.tsx\<close>).
  The types are those of \<open>src/unnamed/part_004\<close>; the sidebar is \<open>src/unnamed/part_002\<close>
  (and its twin, the second file held in \<open>src/components/LiveAssistant.tsx\<close>). State is
  passed explicitly: a handler takes the component's hooks and returns them updated, and
  the clock (\<open>Date.now()\<close>) is an argument.
\<close>

section \<open>Strings\<close>

text \<open>
  JavaScript strings are modelled as \<^typ>\<open>string\<close>, a list of 8-bit characters holding the
  UTF-8 encoding of the text. \<open>toLowerCase\<close> lowers the ASCII letters and leaves every
  other byte alone, which is what \<open>String.prototype.toLowerCase\<close> does on ASCII and on
  CJK text (letters with case outside ASCII are outside this model). \<open>includes\<close> is
  contiguous-substring search and \<open>startsWith\<close> is the prefix test; on well-formed UTF-8 both
  agree with the search over UTF-16 code units.
\<close>

definition lower_char :: "char \<Rightarrow> char" where
  "lower_char c =
     (case map_of (zip ''ABCDEFGHIJKLMNOPQRSTUVWXYZ'' ''abcdefghijklmnopqrstuvwxyz'') c of
        None \<Rightarrow> c | Some l \<Rightarrow> l)"

definition toLowerCase :: "string \<Rightarrow> string" where
  "toLowerCase s = map lower_char s"

fun str_includes :: "string \<Rightarrow> string \<Rightarrow> bool" where
  "str_includes [] q = (q = [])"
| "str_includes (c # cs) q = (prefix q (c # cs) \<or> str_includes cs q)"

definition startsWith :: "string \<Rightarrow> string \<Rightarrow> bool" where
  "startsWith s p = prefix p s"

text \<open>\<open>String.prototype.trim\<close> drops white space and line terminators from both ends.
  \<open>whiteSpace\<close> lists them in UTF-8: U+0009 to U+000D, U+0020, U+00A0, U+1680, U+2000 to
  U+200A, U+2028, U+2029, U+202F, U+205F, U+3000 and U+FEFF.\<close>

definition whiteSpace :: "string list" where
  "whiteSpace =
     [[CHR 0x09], [CHR 0x0A], [CHR 0x0B], [CHR 0x0C], [CHR 0x0D], [CHR 0x20],
      [CHR 0xC2, CHR 0xA0], [CHR 0xE1, CHR 0x9A, CHR 0x80],
      [CHR 0xE2, CHR 0x80, CHR 0x80], [CHR 0xE2, CHR 0x80, CHR 0x81],
      [CHR 0xE2, CHR 0x80, CHR 0x82], [CHR 0xE2, CHR 0x80, CHR 0x83],
      [CHR 0xE2, CHR 0x80, CHR 0x84], [CHR 0xE2, CHR 0x80, CHR 0x85],
      [CHR 0xE2, CHR 0x80, CHR 0x86], [CHR 0xE2, CHR 0x80, CHR 0x87],
      [CHR 0xE2, CHR 0x80, CHR 0x88], [CHR 0xE2, CHR 0x80, CHR 0x89],
      [CHR 0xE2, CHR 0x80, CHR 0x8A], [CHR 0xE2, CHR 0x80, CHR 0xA8],
      [CHR 0xE2, CHR 0x80, CHR 0xA9], [CHR 0xE2, CHR 0x80, CHR 0xAF],
      [CHR 0xE2, CHR 0x81, CHR 0x9F], [CHR 0xE3, CHR 0x80, CHR 0x80],
      [CHR 0xEF, CHR 0xBB, CHR 0xBF]]"

text \<open>Drop, from the front of \<open>s\<close>, every leading occurrence of one of the (non-empty)
  sequences \<open>ws\<close>.\<close>

function dropLeading :: "string list \<Rightarrow> string \<Rightarrow> string" where
  "dropLeading ws s =
     (case find (\<lambda>w. w \<noteq> [] \<and> prefix w s) ws of
        None \<Rightarrow> s
      | Some w \<Rightarrow> dropLeading ws (drop (length w) s))"
  by pat_completeness auto
termination
  by (relation "measure (\<lambda>(ws, s). length s)") (auto simp: find_Some_iff prefix_def)

declare dropLeading.simps [simp del]

definition trimStart :: "string \<Rightarrow> string" where
  "trimStart s = dropLeading whiteSpace s"

definition trimEnd :: "string \<Rightarrow> string" where
  "trimEnd s = rev (dropLeading (map rev whiteSpace) (rev s))"

definition trim :: "string \<Rightarrow> string" where
  "trim s = trimEnd (trimStart s)"

text \<open>\<open>s.replace(/pat/g, "")\<close> and, with \<open>ci\<close>, \<open>s.replace(/pat/gi, "")\<close> for a literal
  lower-case ASCII pattern: scan from the left, skip every match, resume after it.\<close>

definition matchAt :: "bool \<Rightarrow> string \<Rightarrow> string \<Rightarrow> bool" where
  "matchAt ci pat s = prefix pat (if ci then toLowerCase s else s)"

function removeAll :: "bool \<Rightarrow> string \<Rightarrow> string \<Rightarrow> string" where
  "removeAll ci pat [] = []"
| "removeAll ci pat (c # cs) =
     (if pat \<noteq> [] \<and> matchAt ci pat (c # cs)
      then removeAll ci pat (drop (length pat - 1) cs)
      else c # removeAll ci pat cs)"
  by pat_completeness auto
termination
  by (relation "measure (\<lambda>(ci, pat, s). length s)") auto

text \<open>The decimal numeral a template literal prints for \<open>Date.now()\<close> or an index;
  \<open>digit\<close> is only applied to numbers below ten.\<close>

definition digit :: "nat \<Rightarrow> char" where
  "digit d = ''0123456789'' ! d"

fun string_of_nat :: "nat \<Rightarrow> string" where
  "string_of_nat n =
     (if n < 10 then [digit n] else string_of_nat (n div 10) @ [digit (n mod 10)])"

declare string_of_nat.simps [simp del]

text \<open>A \<open>string | null\<close> is truthy when it is a non-empty string; \<open>v || d\<close> is \<open>v\<close> when
  truthy and \<open>d\<close> otherwise.\<close>

definition truthy :: "string option \<Rightarrow> bool" where
  "truthy v = (case v of None \<Rightarrow> False | Some s \<Rightarrow> s \<noteq> [])"

definition orDefault :: "string option \<Rightarrow> string \<Rightarrow> string" where
  "orDefault v d = (case v of None \<Rightarrow> d | Some s \<Rightarrow> if s \<noteq> [] then s else d)"

section \<open>String literals of the source outside ASCII\<close>

text \<open>Each constant is the UTF-8 encoding of a literal of the source; the code points are
  listed with it.\<close>

text \<open>"switch view" in Chinese, the first command phrase of \<open>onresult\<close>:
  U+5207 U+6362 U+89C6 U+56FE.\<close>

definition zh_switch_view :: string where
  "zh_switch_view =
    [CHR 0xE5, CHR 0x88, CHR 0x87, CHR 0xE6, CHR 0x8D, CHR 0xA2, CHR 0xE8, CHR 0xA7, CHR 0x86,
     CHR 0xE5, CHR 0x9B, CHR 0xBE]"

text \<open>"switch language" in Chinese: U+5207 U+6362 U+8BED U+8A00.\<close>

definition zh_switch_language :: string where
  "zh_switch_language =
    [CHR 0xE5, CHR 0x88, CHR 0x87, CHR 0xE6, CHR 0x8D, CHR 0xA2, CHR 0xE8, CHR 0xAF, CHR 0xAD,
     CHR 0xE8, CHR 0xA8, CHR 0x80]"

text \<open>"create folder" in Chinese: U+521B U+5EFA U+6587 U+4EF6 U+5939.\<close>

definition zh_create_folder :: string where
  "zh_create_folder =
    [CHR 0xE5, CHR 0x88, CHR 0x9B, CHR 0xE5, CHR 0xBB, CHR 0xBA, CHR 0xE6, CHR 0x96, CHR 0x87,
     CHR 0xE4, CHR 0xBB, CHR 0xB6, CHR 0xE5, CHR 0xA4, CHR 0xB9]"

text \<open>The display name of the all folder in the offline app: U+5168 U+90E8 U+6587 U+4EF6.\<close>

definition zh_all_files :: string where
  "zh_all_files =
    [CHR 0xE5, CHR 0x85, CHR 0xA8, CHR 0xE9, CHR 0x83, CHR 0xA8, CHR 0xE6, CHR 0x96, CHR 0x87,
     CHR 0xE4, CHR 0xBB, CHR 0xB6]"

text \<open>File-name hint "screenshot": U+622A U+56FE.\<close>

definition zh_screenshot :: string where
  "zh_screenshot =
    [CHR 0xE6, CHR 0x88, CHR 0xAA, CHR 0xE5, CHR 0x9B, CHR 0xBE]"

text \<open>File-name hint "invoice": U+53D1 U+7968.\<close>

definition zh_invoice :: string where
  "zh_invoice =
    [CHR 0xE5, CHR 0x8F, CHR 0x91, CHR 0xE7, CHR 0xA5, CHR 0xA8]"

text \<open>File-name hint "receipt": U+6536 U+636E.\<close>

definition zh_receipt :: string where
  "zh_receipt =
    [CHR 0xE6, CHR 0x94, CHR 0xB6, CHR 0xE6, CHR 0x8D, CHR 0xAE]"

text \<open>File-name hint "note": U+7B14 U+8BB0.\<close>

definition zh_note :: string where
  "zh_note =
    [CHR 0xE7, CHR 0xAC, CHR 0x94, CHR 0xE8, CHR 0xAE, CHR 0xB0]"

text \<open>Default category: U+5E38 U+89C4 U+6587 U+6863.\<close>

definition cat_general :: string where
  "cat_general =
    [CHR 0xE5, CHR 0xB8, CHR 0xB8, CHR 0xE8, CHR 0xA7, CHR 0x84, CHR 0xE6, CHR 0x96, CHR 0x87,
     CHR 0xE6, CHR 0xA1, CHR 0xA3]"

text \<open>Default description:
  U+7CFB U+7EDF U+5DF2 U+81EA U+52A8 U+626B U+63CF U+5E76 U+8BC6 U+522B U+8BE5 U+672C U+5730
  U+6587 U+4EF6 U+3002.\<close>

definition desc_general :: string where
  "desc_general =
    [CHR 0xE7, CHR 0xB3, CHR 0xBB, CHR 0xE7, CHR 0xBB, CHR 0x9F, CHR 0xE5, CHR 0xB7, CHR 0xB2,
     CHR 0xE8, CHR 0x87, CHR 0xAA, CHR 0xE5, CHR 0x8A, CHR 0xA8, CHR 0xE6, CHR 0x89, CHR 0xAB,
     CHR 0xE6, CHR 0x8F, CHR 0x8F, CHR 0xE5, CHR 0xB9, CHR 0xB6, CHR 0xE8, CHR 0xAF, CHR 0x86,
     CHR 0xE5, CHR 0x88, CHR 0xAB, CHR 0xE8, CHR 0xAF, CHR 0xA5, CHR 0xE6, CHR 0x9C, CHR 0xAC,
     CHR 0xE5, CHR 0x9C, CHR 0xB0, CHR 0xE6, CHR 0x96, CHR 0x87, CHR 0xE4, CHR 0xBB, CHR 0xB6,
     CHR 0xE3, CHR 0x80, CHR 0x82]"

text \<open>Category for screenshots: U+5C4F U+5E55 U+622A U+56FE.\<close>

definition cat_screenshot :: string where
  "cat_screenshot =
    [CHR 0xE5, CHR 0xB1, CHR 0x8F, CHR 0xE5, CHR 0xB9, CHR 0x95, CHR 0xE6, CHR 0x88, CHR 0xAA,
     CHR 0xE5, CHR 0x9B, CHR 0xBE]"

text \<open>Description for screenshots:
  U+68C0 U+6D4B U+5230 U+8FD9 U+662F U+4E00 U+5F20 U+5C4F U+5E55 U+622A U+56FE U+FF0C U+5DF2
  U+81EA U+52A8 U+5F52 U+7C7B U+3002.\<close>

definition desc_screenshot :: string where
  "desc_screenshot =
    [CHR 0xE6, CHR 0xA3, CHR 0x80, CHR 0xE6, CHR 0xB5, CHR 0x8B, CHR 0xE5, CHR 0x88, CHR 0xB0,
     CHR 0xE8, CHR 0xBF, CHR 0x99, CHR 0xE6, CHR 0x98, CHR 0xAF, CHR 0xE4, CHR 0xB8, CHR 0x80,
     CHR 0xE5, CHR 0xBC, CHR 0xA0, CHR 0xE5, CHR 0xB1, CHR 0x8F, CHR 0xE5, CHR 0xB9, CHR 0x95,
     CHR 0xE6, CHR 0x88, CHR 0xAA, CHR 0xE5, CHR 0x9B, CHR 0xBE, CHR 0xEF, CHR 0xBC, CHR 0x8C,
     CHR 0xE5, CHR 0xB7, CHR 0xB2, CHR 0xE8, CHR 0x87, CHR 0xAA, CHR 0xE5, CHR 0x8A, CHR 0xA8,
     CHR 0xE5, CHR 0xBD, CHR 0x92, CHR 0xE7, CHR 0xB1, CHR 0xBB, CHR 0xE3, CHR 0x80, CHR 0x82]"

text \<open>Category for receipts: U+8D22 U+52A1 U+7968 U+636E.\<close>

definition cat_receipt :: string where
  "cat_receipt =
    [CHR 0xE8, CHR 0xB4, CHR 0xA2, CHR 0xE5, CHR 0x8A, CHR 0xA1, CHR 0xE7, CHR 0xA5, CHR 0xA8,
     CHR 0xE6, CHR 0x8D, CHR 0xAE]"

text \<open>Description for receipts:
  U+68C0 U+6D4B U+5230 U+7968 U+636E U+7279 U+5F81 U+FF0C U+5EFA U+8BAE U+4FDD U+5B58 U+81F3
  U+8D22 U+52A1 U+6587 U+4EF6 U+5939 U+3002.\<close>

definition desc_receipt :: string where
  "desc_receipt =
    [CHR 0xE6, CHR 0xA3, CHR 0x80, CHR 0xE6, CHR 0xB5, CHR 0x8B, CHR 0xE5, CHR 0x88, CHR 0xB0,
     CHR 0xE7, CHR 0xA5, CHR 0xA8, CHR 0xE6, CHR 0x8D, CHR 0xAE, CHR 0xE7, CHR 0x89, CHR 0xB9,
     CHR 0xE5, CHR 0xBE, CHR 0x81, CHR 0xEF, CHR 0xBC, CHR 0x8C, CHR 0xE5, CHR 0xBB, CHR 0xBA,
     CHR 0xE8, CHR 0xAE, CHR 0xAE, CHR 0xE4, CHR 0xBF, CHR 0x9D, CHR 0xE5, CHR 0xAD, CHR 0x98,
     CHR 0xE8, CHR 0x87, CHR 0xB3, CHR 0xE8, CHR 0xB4, CHR 0xA2, CHR 0xE5, CHR 0x8A, CHR 0xA1,
     CHR 0xE6, CHR 0x96, CHR 0x87, CHR 0xE4, CHR 0xBB, CHR 0xB6, CHR 0xE5, CHR 0xA4, CHR 0xB9,
     CHR 0xE3, CHR 0x80, CHR 0x82]"

text \<open>Category for notes: U+624B U+5199 U+7B14 U+8BB0.\<close>

definition cat_note :: string where
  "cat_note =
    [CHR 0xE6, CHR 0x89, CHR 0x8B, CHR 0xE5, CHR 0x86, CHR 0x99, CHR 0xE7, CHR 0xAC, CHR 0x94,
     CHR 0xE8, CHR 0xAE, CHR 0xB0]"

text \<open>Description for notes:
  U+5DF2 U+8BC6 U+522B U+6587 U+5B57 U+5185 U+5BB9 U+5E76 U+8F6C U+6362 U+4E3A U+53EF U+7F16
  U+8F91 U+6A21 U+5F0F U+3002.\<close>

definition desc_note :: string where
  "desc_note =
    [CHR 0xE5, CHR 0xB7, CHR 0xB2, CHR 0xE8, CHR 0xAF, CHR 0x86, CHR 0xE5, CHR 0x88, CHR 0xAB,
     CHR 0xE6, CHR 0x96, CHR 0x87, CHR 0xE5, CHR 0xAD, CHR 0x97, CHR 0xE5, CHR 0x86, CHR 0x85,
     CHR 0xE5, CHR 0xAE, CHR 0xB9, CHR 0xE5, CHR 0xB9, CHR 0xB6, CHR 0xE8, CHR 0xBD, CHR 0xAC,
     CHR 0xE6, CHR 0x8D, CHR 0xA2, CHR 0xE4, CHR 0xB8, CHR 0xBA, CHR 0xE5, CHR 0x8F, CHR 0xAF,
     CHR 0xE7, CHR 0xBC, CHR 0x96, CHR 0xE8, CHR 0xBE, CHR 0x91, CHR 0xE6, CHR 0xA8, CHR 0xA1,
     CHR 0xE5, CHR 0xBC, CHR 0x8F, CHR 0xE3, CHR 0x80, CHR 0x82]"

text \<open>Second text block: U+70B9 U+51FB U+6B64 U+5904 U+7F16 U+8F91 U+6587 U+5B57.\<close>

definition text_click_to_edit :: string where
  "text_click_to_edit =
    [CHR 0xE7, CHR 0x82, CHR 0xB9, CHR 0xE5, CHR 0x87, CHR 0xBB, CHR 0xE6, CHR 0xAD, CHR 0xA4,
     CHR 0xE5, CHR 0xA4, CHR 0x84, CHR 0xE7, CHR 0xBC, CHR 0x96, CHR 0xE8, CHR 0xBE, CHR 0x91,
     CHR 0xE6, CHR 0x96, CHR 0x87, CHR 0xE5, CHR 0xAD, CHR 0x97]"

text \<open>Third text block: U+672C U+5730 U+6A21 U+5F0F U+8FD0 U+884C U+4E2D.\<close>

definition text_local_mode :: string where
  "text_local_mode =
    [CHR 0xE6, CHR 0x9C, CHR 0xAC, CHR 0xE5, CHR 0x9C, CHR 0xB0, CHR 0xE6, CHR 0xA8, CHR 0xA1,
     CHR 0xE5, CHR 0xBC, CHR 0x8F, CHR 0xE8, CHR 0xBF, CHR 0x90, CHR 0xE8, CHR 0xA1, CHR 0x8C,
     CHR 0xE4, CHR 0xB8, CHR 0xAD]"

section \<open>Data model (types.ts)\<close>

text \<open>Field names carry a prefix where the source's name (\<open>id\<close>, \<open>name\<close>, \<open>text\<close>, \<open>x\<close>,
  \<open>y\<close>) is taken in HOL or shared between two interfaces.\<close>

text \<open>A \<open>number\<close>: a finite value, or one of the three values that are not (\<open>-0\<close> and \<open>0\<close>
  are one value, as for \<open>===\<close>).\<close>

datatype js_number = Finite real | NaN | PosInfinity | NegInfinity

text \<open>The optional \<open>folderId\<close> of an image: left out (\<open>undefined\<close>), \<open>null\<close> (what the
  offline upload stores when there is no current folder), or a string. Equality of two
  such values is \<open>===\<close>.\<close>

datatype folder_ref = Undefined | Null | Str string

record OCRText =
  ocr_id :: string
  ocr_text :: string
  ocr_x :: js_number
  ocr_y :: js_number

record ImageItem =
  img_id :: string
  url :: string
  base64 :: string
  img_name :: string
  category :: string
  description :: string
  ocrTexts :: "OCRText list"
  folderId :: folder_ref

text \<open>The name of a folder is declared a string; \<open>create_folder\<close> stores whatever the tool
  call carries, which is \<open>undefined\<close> (\<open>None\<close>) when the call has no \<open>name\<close>. The current
  folder is a string or \<open>null\<close> (\<open>None\<close>).\<close>

record Folder =
  folder_id :: string
  folder_name :: "string option"

record AppState =
  images :: "ImageItem list"
  folders :: "Folder list"
  currentFolderId :: "string option"
  searchQuery :: string

text \<open>The tree both \<open>useState\<close> initialisers fall back to. The display name of the \<open>all\<close>
  folder is the only difference between the two apps.\<close>

definition default_tree :: "string \<Rightarrow> AppState" where
  "default_tree allName =
     \<lparr>images = [], folders = [\<lparr>folder_id = ''all'', folder_name = Some allName\<rparr>],
      currentFolderId = Some ''all'', searchQuery = ''''\<rparr>"

section \<open>Component state\<close>

datatype ViewMode = desktop | mobile

datatype Language = en | zh

text \<open>The \<open>useState\<close> hooks of \<open>App\<close>. The connected app has no \<open>viewMode\<close>,
  \<open>multiSelectMode\<close> and \<open>batchSelectedIds\<close>; its handlers leave those fields alone.\<close>

record App =
  state :: AppState
  selectedImageId :: "string option"
  isAnalyzing :: bool
  multiSelectMode :: bool
  batchSelectedIds :: "string list"
  viewMode :: ViewMode
  language :: Language

section \<open>Derived view (\<open>filteredImages\<close>, identical in both apps)\<close>

text \<open>\<open>img.folderId === currentFolderId\<close>: a \<open>null\<close> current folder equals a \<open>null\<close>
  \<open>folderId\<close> only, a string the same string only.\<close>

definition refOf :: "string option \<Rightarrow> folder_ref" where
  "refOf cur = (case cur of None \<Rightarrow> Null | Some c \<Rightarrow> Str c)"

definition sameFolder :: "folder_ref \<Rightarrow> string option \<Rightarrow> bool" where
  "sameFolder fid cur = (fid = refOf cur)"

definition matchesQuery :: "string \<Rightarrow> ImageItem \<Rightarrow> bool" where
  "matchesQuery q img =
     (str_includes (toLowerCase (img_name img)) q \<or>
      str_includes (toLowerCase (category img)) q \<or>
      (description img \<noteq> [] \<and> str_includes (toLowerCase (description img)) q) \<or>
      list_ex (\<lambda>t. str_includes (toLowerCase (ocr_text t)) q) (ocrTexts img))"

definition filteredImages :: "AppState \<Rightarrow> ImageItem list" where
  "filteredImages s =
     (let imgs = images s;
          imgs = (if truthy (currentFolderId s) \<and> currentFolderId s \<noteq> Some ''all''
                  then filter (\<lambda>img. sameFolder (folderId img) (currentFolderId s)) imgs
                  else imgs);
          imgs = (if searchQuery s \<noteq> []
                  then filter (matchesQuery (toLowerCase (searchQuery s))) imgs
                  else imgs)
      in imgs)"

section \<open>State transitions\<close>

subsection \<open>Sidebar callbacks (both apps)\<close>

definition onDeleteFolder :: "string \<Rightarrow> AppState \<Rightarrow> AppState" where
  "onDeleteFolder i prev =
     prev\<lparr>folders := filter (\<lambda>f. folder_id f \<noteq> i) (folders prev),
          currentFolderId := (if currentFolderId prev = Some i then Some ''all''
                              else currentFolderId prev)\<rparr>"

definition onSelect_state :: "string \<Rightarrow> AppState \<Rightarrow> AppState" where
  "onSelect_state i prev = prev\<lparr>currentFolderId := Some i\<rparr>"

subsection \<open>Image edits (both apps)\<close>

definition updateImageTitle :: "string \<Rightarrow> string \<Rightarrow> AppState \<Rightarrow> AppState" where
  "updateImageTitle i newTitle prev =
     prev\<lparr>images := map (\<lambda>img. if img_id img = i then img\<lparr>img_name := newTitle\<rparr> else img)
                        (images prev)\<rparr>"

definition updateImageCategory :: "string \<Rightarrow> string \<Rightarrow> AppState \<Rightarrow> AppState" where
  "updateImageCategory i newCategory prev =
     prev\<lparr>images := map (\<lambda>img. if img_id img = i then img\<lparr>category := newCategory\<rparr> else img)
                        (images prev)\<rparr>"

definition onUpdateText :: "string \<Rightarrow> string \<Rightarrow> string \<Rightarrow> AppState \<Rightarrow> AppState" where
  "onUpdateText sid tid txt prev =
     prev\<lparr>images := map (\<lambda>img. if img_id img = sid
                then img\<lparr>ocrTexts := map (\<lambda>t. if ocr_id t = tid then t\<lparr>ocr_text := txt\<rparr> else t)
                                          (ocrTexts img)\<rparr>
                else img) (images prev)\<rparr>"

definition onRemoveText :: "string \<Rightarrow> string \<Rightarrow> AppState \<Rightarrow> AppState" where
  "onRemoveText sid tid prev =
     prev\<lparr>images := map (\<lambda>img. if img_id img = sid
                then img\<lparr>ocrTexts := filter (\<lambda>t. ocr_id t \<noteq> tid) (ocrTexts img)\<rparr>
                else img) (images prev)\<rparr>"

definition onAddText :: "string \<Rightarrow> nat \<Rightarrow> js_number \<Rightarrow> js_number \<Rightarrow> AppState \<Rightarrow> AppState" where
  "onAddText sid now x y prev =
     (let newText = \<lparr>ocr_id = ''manual-'' @ string_of_nat now, ocr_text = ''New Text'',
                      ocr_x = x, ocr_y = y\<rparr>
      in prev\<lparr>images := map (\<lambda>img. if img_id img = sid
                   then img\<lparr>ocrTexts := ocrTexts img @ [newText]\<rparr> else img) (images prev)\<rparr>)"

definition setSearchQuery :: "string \<Rightarrow> AppState \<Rightarrow> AppState" where
  "setSearchQuery q prev = prev\<lparr>searchQuery := q\<rparr>"

definition addImage :: "ImageItem \<Rightarrow> AppState \<Rightarrow> AppState" where
  "addImage newItem prev = prev\<lparr>images := newItem # images prev\<rparr>"

subsection \<open>Batch delete (offline app)\<close>

definition batchDelete :: "string list \<Rightarrow> AppState \<Rightarrow> AppState" where
  "batchDelete batch prev =
     prev\<lparr>images := filter (\<lambda>img. img_id img \<notin> set batch) (images prev)\<rparr>"

definition handleBatchDelete :: "bool \<Rightarrow> App \<Rightarrow> App" where
  "handleBatchDelete confirmed app =
     (if \<not> confirmed then app
      else app\<lparr>state := batchDelete (batchSelectedIds app) (state app),
               batchSelectedIds := [], multiSelectMode := False\<rparr>)"

subsection \<open>\<open>handleCreateFolderAndMove\<close> (offline app)\<close>

text \<open>The filter of the third tier, as written in the updater: the folder test and a search
  test on the image name alone.\<close>

definition inFolder :: "AppState \<Rightarrow> ImageItem \<Rightarrow> bool" where
  "inFolder prev img =
     (currentFolderId prev = Some ''all'' \<or> sameFolder (folderId img) (currentFolderId prev))"

definition matchesSearch :: "AppState \<Rightarrow> ImageItem \<Rightarrow> bool" where
  "matchesSearch prev img =
     (searchQuery prev = [] \<or>
      str_includes (toLowerCase (img_name img)) (toLowerCase (searchQuery prev)))"

definition currentImages :: "AppState \<Rightarrow> ImageItem list" where
  "currentImages prev = filter (\<lambda>img. inFolder prev img \<and> matchesSearch prev img) (images prev)"

definition idsToMove :: "string list \<Rightarrow> string option \<Rightarrow> AppState \<Rightarrow> string list" where
  "idsToMove batch sel prev =
     (if length batch > 0 then batch
      else (case sel of
              Some sid \<Rightarrow> if sid \<noteq> [] then [sid] else map img_id (currentImages prev)
            | None \<Rightarrow> map img_id (currentImages prev)))"

definition createFolderAndMove_update ::
  "string \<Rightarrow> nat \<Rightarrow> string list \<Rightarrow> string option \<Rightarrow> AppState \<Rightarrow> AppState" where
  "createFolderAndMove_update folderName now batch sel prev =
     (let newFolderId = ''folder-'' @ string_of_nat now;
          newFolder = \<lparr>folder_id = newFolderId, folder_name = Some folderName\<rparr>;
          ids = idsToMove batch sel prev;
          nextImages = map (\<lambda>img. if img_id img \<in> set ids
                                   then img\<lparr>folderId := Str newFolderId\<rparr> else img)
                           (images prev)
      in prev\<lparr>folders := folders prev @ [newFolder], images := nextImages,
              currentFolderId := Some newFolderId\<rparr>)"

definition handleCreateFolderAndMove :: "string \<Rightarrow> nat \<Rightarrow> App \<Rightarrow> App" where
  "handleCreateFolderAndMove folderName now app =
     app\<lparr>state := createFolderAndMove_update folderName now (batchSelectedIds app)
                     (selectedImageId app) (state app),
         batchSelectedIds := [], multiSelectMode := False, selectedImageId := None\<rparr>"

subsection \<open>\<open>recognition.onresult\<close> (offline app)\<close>

text \<open>The tests of the \<open>if\<close> chain, on the trimmed transcript, and the folder name the
  third branch extracts.\<close>

definition isSwitchView :: "string \<Rightarrow> bool" where
  "isSwitchView transcript =
     (str_includes transcript zh_switch_view \<or> str_includes transcript ''switch view'')"

definition isSwitchLanguage :: "string \<Rightarrow> bool" where
  "isSwitchLanguage transcript =
     (str_includes transcript zh_switch_language
      \<or> str_includes transcript ''switch language'')"

definition isCreateFolder :: "string \<Rightarrow> bool" where
  "isCreateFolder transcript =
     (startsWith transcript zh_create_folder
      \<or> startsWith (toLowerCase transcript) ''create folder'')"

definition folderNameOf :: "string \<Rightarrow> string" where
  "folderNameOf transcript =
     trim (removeAll True ''create folder'' (removeAll False zh_create_folder transcript))"

definition onresult :: "string \<Rightarrow> nat \<Rightarrow> App \<Rightarrow> App" where
  "onresult raw now app =
     (let transcript = trim raw in
      if isSwitchView transcript
      then app\<lparr>viewMode := (if viewMode app = desktop then mobile else desktop)\<rparr>
      else if isSwitchLanguage transcript
      then app\<lparr>language := (if language app = en then zh else en)\<rparr>
      else if isCreateFolder transcript
      then (let folderName = folderNameOf transcript
            in if folderName \<noteq> [] then handleCreateFolderAndMove folderName now app else app)
      else app\<lparr>state := setSearchQuery transcript (state app)\<rparr>)"

subsection \<open>\<open>handleVoiceCommand\<close> (connected app)\<close>

text \<open>\<open>args\<close> is declared \<open>any\<close>: the tool call may carry no argument object at all
  (\<open>None\<close>), and then reading \<open>args.name\<close> or \<open>args.query\<close> inside the updater throws a
  \<open>TypeError\<close>; or it carries an object, read by property name, whose properties are
  strings or missing. A missing \<open>name\<close> is stored as it is. A missing \<open>query\<close> stores
  \<open>undefined\<close> in \<open>searchQuery\<close>, written here as the empty string: the app computes with
  \<open>searchQuery\<close> only after testing it for truthiness. Nothing in the app catches an
  error thrown by the updater (in \<open>search_items\<close> it is thrown after the call
  \<open>setSelectedImageId(null)\<close>), so the error value carries no component.\<close>

datatype js_error = TypeError

text \<open>The two cases of the \<open>switch\<close>, given the value read from \<open>args\<close>.\<close>

definition createFolder :: "string option \<Rightarrow> nat \<Rightarrow> AppState \<Rightarrow> AppState" where
  "createFolder nm now prev =
     (if list_ex (\<lambda>f. folder_name f = nm) (folders prev) then prev
      else prev\<lparr>folders := folders prev @
             [\<lparr>folder_id = ''folder-'' @ string_of_nat now, folder_name = nm\<rparr>]\<rparr>)"

definition searchItems :: "string option \<Rightarrow> AppState \<Rightarrow> AppState" where
  "searchItems query prev =
     prev\<lparr>searchQuery := (case query of None \<Rightarrow> [] | Some q \<Rightarrow> q),
          currentFolderId := Some ''all''\<rparr>"

text \<open>The handler: \<open>Inl TypeError\<close> when the updater throws.\<close>

definition handleVoiceCommand ::
  "string \<Rightarrow> (string \<rightharpoonup> string) option \<Rightarrow> nat \<Rightarrow> App \<Rightarrow> js_error + App" where
  "handleVoiceCommand name args now app =
     (if name = ''create_folder''
      then (case args of
              None \<Rightarrow> Inl TypeError
            | Some a \<Rightarrow> Inr (app\<lparr>state := createFolder (a ''name'') now (state app)\<rparr>))
      else if name = ''search_items''
      then (case args of
              None \<Rightarrow> Inl TypeError
            | Some a \<Rightarrow>
                Inr (app\<lparr>selectedImageId := None,
                         state := searchItems (a ''query'') (state app)\<rparr>))
      else Inr app)"

section \<open>Ingestion\<close>

text \<open>What \<open>analyzeImage\<close> resolves to.\<close>

record Analysis =
  a_category :: string
  a_description :: string
  a_texts :: "OCRText list"

text \<open>The file picked in the input element: its name and what \<open>URL.createObjectURL\<close>
  returns for it.\<close>

record UploadedFile =
  file_name :: string
  file_objectURL :: string

text \<open>\<open>FileReader.readAsDataURL\<close> either delivers the data URL to \<open>reader.onload\<close>
  (\<open>Some\<close>) or fails (\<open>None\<close>). Neither app sets \<open>onerror\<close>, \<open>onabort\<close> or \<open>onloadend\<close>:
  after a failed read no code of the handler runs any more.\<close>

type_synonym read_result = "string option"

subsection \<open>Offline app: the local \<open>analyzeImage\<close> and \<open>handleFileUpload\<close>\<close>

text \<open>\<open>t1\<close>, \<open>t2\<close>, \<open>t3\<close> are the three readings of \<open>Date.now()\<close>. The local analysis has no
  failing path: it always resolves.\<close>

definition analyzeImage_local :: "string \<Rightarrow> string \<Rightarrow> nat \<Rightarrow> nat \<Rightarrow> nat \<Rightarrow> Analysis" where
  "analyzeImage_local b64 fileName t1 t2 t3 =
     (let name = toLowerCase fileName;
          (cat, desc) =
            (if str_includes name ''screen'' \<or> str_includes name zh_screenshot
             then (cat_screenshot, desc_screenshot)
             else if str_includes name ''receipt'' \<or> str_includes name zh_invoice
                     \<or> str_includes name zh_receipt
             then (cat_receipt, desc_receipt)
             else if str_includes name ''note'' \<or> str_includes name zh_note
             then (cat_note, desc_note)
             else (cat_general, desc_general))
      in \<lparr>a_category = cat, a_description = desc,
          a_texts =
            [\<lparr>ocr_id = ''ocr-1-'' @ string_of_nat t1, ocr_text = cat,
              ocr_x = Finite 20, ocr_y = Finite 20\<rparr>,
             \<lparr>ocr_id = ''ocr-2-'' @ string_of_nat t2, ocr_text = text_click_to_edit,
              ocr_x = Finite 50, ocr_y = Finite 50\<rparr>,
             \<lparr>ocr_id = ''ocr-3-'' @ string_of_nat t3, ocr_text = text_local_mode,
              ocr_x = Finite 80, ocr_y = Finite 80\<rparr>]\<rparr>)"

text \<open>The body of \<open>reader.onload\<close>, given the data URL \<open>b64\<close>. \<open>captured\<close> is the \<open>state\<close> of
  the render in which the handler was created, that is, the state when the file was
  chosen; \<open>app\<close> is the component when the analysis has resolved.\<close>

definition newItem_offline ::
  "UploadedFile \<Rightarrow> string \<Rightarrow> AppState \<Rightarrow> nat \<Rightarrow> Analysis \<Rightarrow> ImageItem" where
  "newItem_offline file b64 captured now a =
     \<lparr>img_id = ''img-'' @ string_of_nat now, url = b64, base64 = b64,
      img_name = file_name file, category = a_category a,
      description = a_description a, ocrTexts = a_texts a,
      folderId = (if currentFolderId captured = Some ''all'' then Str ''all''
                  else refOf (currentFolderId captured))\<rparr>"

definition onload_offline ::
  "UploadedFile \<Rightarrow> string \<Rightarrow> AppState \<Rightarrow> nat \<Rightarrow> nat \<Rightarrow> nat \<Rightarrow> nat \<Rightarrow> App \<Rightarrow> App" where
  "onload_offline file b64 captured now t1 t2 t3 app =
     (let a = analyzeImage_local b64 (file_name file) t1 t2 t3;
          newItem = newItem_offline file b64 captured now a
      in app\<lparr>state := addImage newItem (state app), isAnalyzing := False\<rparr>)"

text \<open>One upload from the change event on, with no other event in between: no file
  chosen, the read failed, or the read succeeded and \<open>onload\<close> ran to its end.\<close>

definition handleFileUpload_offline ::
  "UploadedFile option \<Rightarrow> read_result \<Rightarrow> nat \<Rightarrow> nat \<Rightarrow> nat \<Rightarrow> nat \<Rightarrow> App \<Rightarrow> App" where
  "handleFileUpload_offline file loaded now t1 t2 t3 app =
     (case file of
        None \<Rightarrow> app
      | Some f \<Rightarrow>
          (case loaded of
             None \<Rightarrow> app\<lparr>isAnalyzing := True\<rparr>
           | Some b64 \<Rightarrow>
               onload_offline f b64 (state app) now t1 t2 t3 (app\<lparr>isAnalyzing := True\<rparr>)))"

subsection \<open>Connected app: the remote \<open>analyzeImage\<close> and \<open>handleFileUpload\<close>\<close>

text \<open>What the remote model answers, after \<open>JSON.parse\<close>: each key may be missing. The
  request may be rejected, and the answer may fail to parse.\<close>

record RawText =
  raw_text :: string
  raw_x :: js_number
  raw_y :: js_number

record GeminiData =
  data_category :: "string option"
  data_description :: "string option"
  data_texts :: "RawText list option"

datatype failure = RequestRejected | ResponseNotJSON

text \<open>\<open>clock i\<close> is the reading of \<open>Date.now()\<close> when text block \<open>i\<close> is mapped.\<close>

definition analysisOf :: "(nat \<Rightarrow> nat) \<Rightarrow> GeminiData \<Rightarrow> Analysis" where
  "analysisOf clock d =
     \<lparr>a_category = orDefault (data_category d) ''Uncategorized'',
      a_description = orDefault (data_description d) '''',
      a_texts =
        map (\<lambda>(i, t). \<lparr>ocr_id = ''ocr-'' @ string_of_nat i @ ''-'' @ string_of_nat (clock i),
                        ocr_text = raw_text t, ocr_x = raw_x t, ocr_y = raw_y t\<rparr>)
            (enumerate 0 (case data_texts d of None \<Rightarrow> [] | Some ts \<Rightarrow> ts))\<rparr>"

definition analyzeImage_remote :: "(nat \<Rightarrow> nat) \<Rightarrow> failure + GeminiData \<Rightarrow> failure + Analysis" where
  "analyzeImage_remote clock answer =
     (case answer of Inl e \<Rightarrow> Inl e | Inr d \<Rightarrow> Inr (analysisOf clock d))"

definition newItem_connected :: "UploadedFile \<Rightarrow> string \<Rightarrow> nat \<Rightarrow> Analysis \<Rightarrow> ImageItem" where
  "newItem_connected file b64 now a =
     \<lparr>img_id = ''img-'' @ string_of_nat now, url = file_objectURL file,
      base64 = b64, img_name = file_name file, category = a_category a,
      description = a_description a, ocrTexts = a_texts a, folderId = Str ''all''\<rparr>"

text \<open>The body of \<open>reader.onload\<close>: \<open>try\<close> / \<open>catch\<close> / \<open>finally\<close>. A failed analysis skips
  the update, and the flag is reset on both paths.\<close>

definition onload_connected ::
  "UploadedFile \<Rightarrow> string \<Rightarrow> nat \<Rightarrow> (nat \<Rightarrow> nat) \<Rightarrow> failure + GeminiData \<Rightarrow> App \<Rightarrow> App" where
  "onload_connected file b64 now clock answer app =
     (let app' = (case analyzeImage_remote clock answer of
                    Inr a \<Rightarrow>
                      app\<lparr>state := addImage (newItem_connected file b64 now a) (state app)\<rparr>
                  | Inl e \<Rightarrow> app)
      in app'\<lparr>isAnalyzing := False\<rparr>)"

definition handleFileUpload_connected ::
  "UploadedFile option \<Rightarrow> read_result \<Rightarrow> nat \<Rightarrow> (nat \<Rightarrow> nat) \<Rightarrow> failure + GeminiData \<Rightarrow>
     App \<Rightarrow> App" where
  "handleFileUpload_connected file loaded now clock answer app =
     (case file of
        None \<Rightarrow> app
      | Some f \<Rightarrow>
          (case loaded of
             None \<Rightarrow> app\<lparr>isAnalyzing := True\<rparr>
           | Some b64 \<Rightarrow> onload_connected f b64 now clock answer (app\<lparr>isAnalyzing := True\<rparr>)))"

subsection \<open>Image ids and the clock\<close>

text \<open>Every stored image id is \<open>img-\<close> followed by a clock reading earlier than \<open>now\<close>.\<close>

definition stampedBefore :: "nat \<Rightarrow> AppState \<Rightarrow> bool" where
  "stampedBefore now s =
     list_all (\<lambda>img. list_ex (\<lambda>t. img_id img = ''img-'' @ string_of_nat t) [0..<now])
       (images s)"

section \<open>Persistence\<close>

subsection \<open>JSON values and what \<open>JSON.stringify\<close> writes for a tree\<close>

datatype json =
  JNull | JBool bool | JNum real | JStr string | JArr "json list" | JObj "(string \<times> json) list"

text \<open>\<open>JSON.stringify\<close> writes a finite number as it is and \<open>null\<close> for \<open>NaN\<close> and the
  infinities; it leaves out a property whose value is \<open>undefined\<close> and writes \<open>null\<close> for
  \<open>null\<close>. The properties are written in the order of the interface declarations.\<close>

definition json_of_number :: "js_number \<Rightarrow> json" where
  "json_of_number n = (case n of Finite r \<Rightarrow> JNum r | _ \<Rightarrow> JNull)"

definition json_of_text :: "OCRText \<Rightarrow> json" where
  "json_of_text t =
     JObj [(''id'', JStr (ocr_id t)), (''text'', JStr (ocr_text t)),
           (''x'', json_of_number (ocr_x t)), (''y'', json_of_number (ocr_y t))]"

definition json_of_image :: "ImageItem \<Rightarrow> json" where
  "json_of_image img =
     JObj ([(''id'', JStr (img_id img)), (''url'', JStr (url img)),
            (''base64'', JStr (base64 img)), (''name'', JStr (img_name img)),
            (''category'', JStr (category img)), (''description'', JStr (description img)),
            (''ocrTexts'', JArr (map json_of_text (ocrTexts img)))]
           @ (case folderId img of
                Undefined \<Rightarrow> []
              | Null \<Rightarrow> [(''folderId'', JNull)]
              | Str f \<Rightarrow> [(''folderId'', JStr f)]))"

definition json_of_folder :: "Folder \<Rightarrow> json" where
  "json_of_folder f =
     JObj ((''id'', JStr (folder_id f))
           # (case folder_name f of None \<Rightarrow> [] | Some n \<Rightarrow> [(''name'', JStr n)]))"

definition json_of_state :: "AppState \<Rightarrow> json" where
  "json_of_state s =
     JObj [(''images'', JArr (map json_of_image (images s))),
           (''folders'', JArr (map json_of_folder (folders s))),
           (''currentFolderId'',
              (case currentFolderId s of None \<Rightarrow> JNull | Some c \<Rightarrow> JStr c)),
           (''searchQuery'', JStr (searchQuery s))]"

subsection \<open>Reading a parsed value as a tree\<close>

text \<open>The initialiser returns what \<open>JSON.parse\<close> gives and the app then uses it as an
  \<open>AppState\<close> without any check. \<open>tree_of_json\<close> says which tree a parsed value is, if it
  is one: a value with the properties of the interfaces, of the declared types. Any other
  value is no tree.\<close>

definition number_of_json :: "json \<Rightarrow> js_number option" where
  "number_of_json j = (case j of JNum r \<Rightarrow> Some (Finite r) | _ \<Rightarrow> None)"

text \<open>The property \<open>k\<close> at the head of a property list, holding a string, a number, an
  array.\<close>

definition str_prop :: "string \<Rightarrow> string \<times> json \<Rightarrow> string option" where
  "str_prop k p = (case p of (k', JStr v) \<Rightarrow> if k' = k then Some v else None | _ \<Rightarrow> None)"

definition num_prop :: "string \<Rightarrow> string \<times> json \<Rightarrow> js_number option" where
  "num_prop k p = (if fst p = k then number_of_json (snd p) else None)"

definition arr_prop :: "string \<Rightarrow> string \<times> json \<Rightarrow> json list option" where
  "arr_prop k p = (case p of (k', JArr vs) \<Rightarrow> if k' = k then Some vs else None | _ \<Rightarrow> None)"

definition text_of_json :: "json \<Rightarrow> OCRText option" where
  "text_of_json j =
     (case j of
        JObj [p1, p2, p3, p4] \<Rightarrow>
          do { i \<leftarrow> str_prop ''id'' p1; t \<leftarrow> str_prop ''text'' p2;
               nx \<leftarrow> num_prop ''x'' p3; ny \<leftarrow> num_prop ''y'' p4;
               Some \<lparr>ocr_id = i, ocr_text = t, ocr_x = nx, ocr_y = ny\<rparr> }
      | _ \<Rightarrow> None)"

definition ref_of_props :: "(string \<times> json) list \<Rightarrow> folder_ref option" where
  "ref_of_props ps =
     (case ps of
        [] \<Rightarrow> Some Undefined
      | [(k, JNull)] \<Rightarrow> if k = ''folderId'' then Some Null else None
      | [(k, JStr f)] \<Rightarrow> if k = ''folderId'' then Some (Str f) else None
      | _ \<Rightarrow> None)"

definition image_of_json :: "json \<Rightarrow> ImageItem option" where
  "image_of_json j =
     (case j of
        JObj (p1 # p2 # p3 # p4 # p5 # p6 # p7 # rest) \<Rightarrow>
          do { i \<leftarrow> str_prop ''id'' p1; u \<leftarrow> str_prop ''url'' p2;
               b \<leftarrow> str_prop ''base64'' p3; n \<leftarrow> str_prop ''name'' p4;
               c \<leftarrow> str_prop ''category'' p5; d \<leftarrow> str_prop ''description'' p6;
               ts \<leftarrow> arr_prop ''ocrTexts'' p7;
               texts \<leftarrow> those (map text_of_json ts);
               fid \<leftarrow> ref_of_props rest;
               Some \<lparr>img_id = i, url = u, base64 = b, img_name = n, category = c,
                      description = d, ocrTexts = texts, folderId = fid\<rparr> }
      | _ \<Rightarrow> None)"

definition folder_of_json :: "json \<Rightarrow> Folder option" where
  "folder_of_json j =
     (case j of
        JObj [p1] \<Rightarrow>
          do { i \<leftarrow> str_prop ''id'' p1; Some \<lparr>folder_id = i, folder_name = None\<rparr> }
      | JObj [p1, p2] \<Rightarrow>
          do { i \<leftarrow> str_prop ''id'' p1; n \<leftarrow> str_prop ''name'' p2;
               Some \<lparr>folder_id = i, folder_name = Some n\<rparr> }
      | _ \<Rightarrow> None)"

definition current_of_json :: "string \<times> json \<Rightarrow> string option option" where
  "current_of_json p =
     (case p of
        (k, JNull) \<Rightarrow> if k = ''currentFolderId'' then Some None else None
      | (k, JStr c) \<Rightarrow> if k = ''currentFolderId'' then Some (Some c) else None
      | _ \<Rightarrow> None)"

definition tree_of_json :: "json \<Rightarrow> AppState option" where
  "tree_of_json j =
     (case j of
        JObj [p1, p2, p3, p4] \<Rightarrow>
          do { is \<leftarrow> arr_prop ''images'' p1; fs \<leftarrow> arr_prop ''folders'' p2;
               cur \<leftarrow> current_of_json p3; q \<leftarrow> str_prop ''searchQuery'' p4;
               imgs \<leftarrow> those (map image_of_json is);
               flds \<leftarrow> those (map folder_of_json fs);
               Some \<lparr>images = imgs, folders = flds, currentFolderId = cur, searchQuery = q\<rparr> }
      | _ \<Rightarrow> None)"

text \<open>A JavaScript value held in \<open>state\<close>: a tree, or some other value.\<close>

datatype js_value = Tree AppState | Other json

definition value_of_json :: "json \<Rightarrow> js_value" where
  "value_of_json j = (case tree_of_json j of Some s \<Rightarrow> Tree s | None \<Rightarrow> Other j)"

definition json_of_value :: "js_value \<Rightarrow> json" where
  "json_of_value v = (case v of Tree s \<Rightarrow> json_of_state s | Other j \<Rightarrow> j)"

subsection \<open>\<open>localStorage\<close>, the persistence effect and the initialiser\<close>

text \<open>A string in storage is either the JSON text of a value, and then it is identified
  with that value (\<open>JSON.parse\<close> of a JSON text is the value the text denotes), or it is not
  JSON text at all, and \<open>JSON.parse\<close> throws on it. The empty string is of the second
  kind.\<close>

datatype stored = Document json | NotJSON string

type_synonym storage = "string \<rightharpoonup> stored"

definition JSON_stringify :: "js_value \<Rightarrow> stored" where
  "JSON_stringify v = Document (json_of_value v)"

text \<open>\<open>None\<close> stands for the \<open>SyntaxError\<close>.\<close>

definition JSON_parse :: "stored \<Rightarrow> json option" where
  "JSON_parse saved = (case saved of Document j \<Rightarrow> Some j | NotJSON t \<Rightarrow> None)"

definition LOCAL_STORAGE_KEY_offline :: string where
  "LOCAL_STORAGE_KEY_offline = ''visionary_hub_state_offline_v1''"

definition LOCAL_STORAGE_KEY_connected :: string where
  "LOCAL_STORAGE_KEY_connected = ''visionary_hub_state_v1''"

text \<open>The \<open>useEffect\<close> on \<open>state\<close>.\<close>

definition persist :: "string \<Rightarrow> js_value \<Rightarrow> storage \<Rightarrow> storage" where
  "persist key st store = store(key \<mapsto> JSON_stringify st)"

text \<open>The initialiser passed to \<open>useState\<close>: \<open>if (saved)\<close> skips a missing entry and the
  empty string, \<open>try\<close> / \<open>catch\<close> skips text that does not parse.\<close>

definition initialState :: "string \<Rightarrow> AppState \<Rightarrow> storage \<Rightarrow> js_value" where
  "initialState key dflt store =
     (case store key of
        None \<Rightarrow> Tree dflt
      | Some saved \<Rightarrow>
          if saved = NotJSON [] then Tree dflt
          else (case JSON_parse saved of Some j \<Rightarrow> value_of_json j | None \<Rightarrow> Tree dflt))"

text \<open>The two apps: each reads and writes its own key and has its own default tree.\<close>

definition persist_connected :: "js_value \<Rightarrow> storage \<Rightarrow> storage" where
  "persist_connected st store = persist LOCAL_STORAGE_KEY_connected st store"

definition initialState_connected :: "storage \<Rightarrow> js_value" where
  "initialState_connected store =
     initialState LOCAL_STORAGE_KEY_connected (default_tree ''All Files'') store"

definition persist_offline :: "js_value \<Rightarrow> storage \<Rightarrow> storage" where
  "persist_offline st store = persist LOCAL_STORAGE_KEY_offline st store"

definition initialState_offline :: "storage \<Rightarrow> js_value" where
  "initialState_offline store =
     initialState LOCAL_STORAGE_KEY_offline (default_tree zh_all_files) store"

text \<open>Every coordinate of every text block is a finite number.\<close>

definition isFinite :: "js_number \<Rightarrow> bool" where
  "isFinite n = (case n of Finite r \<Rightarrow> True | _ \<Rightarrow> False)"

definition finiteCoordinates :: "AppState \<Rightarrow> bool" where
  "finiteCoordinates s =
     list_all (\<lambda>img. list_all (\<lambda>t. isFinite (ocr_x t) \<and> isFinite (ocr_y t)) (ocrTexts img))
       (images s)"

section \<open>Reachable states\<close>

text \<open>One rule for each call of \<open>setState\<close> in the two apps. Arguments that come from
  other hooks, from the clock or from the user are arbitrary. The sidebar offers
  \<open>onSelect\<close> for every folder it lists and \<open>onDeleteFolder\<close> for every listed folder
  whose id is not \<open>all\<close>.\<close>

inductive transition :: "AppState \<Rightarrow> AppState \<Rightarrow> bool" where
  create_and_move: "transition s (createFolderAndMove_update folderName now batch sel s)"
| search: "transition s (setSearchQuery q s)"
| upload: "transition s (addImage newItem s)"
| title: "transition s (updateImageTitle i newTitle s)"
| category: "transition s (updateImageCategory i newCategory s)"
| batch_delete: "transition s (batchDelete batch s)"
| select_folder: "f \<in> set (folders s) \<Longrightarrow> transition s (onSelect_state (folder_id f) s)"
| delete_folder:
    "f \<in> set (folders s) \<Longrightarrow> folder_id f \<noteq> ''all'' \<Longrightarrow>
       transition s (onDeleteFolder (folder_id f) s)"
| update_text: "transition s (onUpdateText sid tid txt s)"
| remove_text: "transition s (onRemoveText sid tid s)"
| add_text: "transition s (onAddText sid now x y s)"
| voice_command:
    "handleVoiceCommand name args now (app\<lparr>state := s\<rparr>) = Inr app' \<Longrightarrow>
       transition s (state app')"

definition hasAllFolder :: "AppState \<Rightarrow> bool" where
  "hasAllFolder s = list_ex (\<lambda>f. folder_id f = ''all'') (folders s)"

section \<open>The derived view in the words of the specification\<close>





section \<open>Example inputs\<close>

text \<open>The image of the specification's search example.\<close>

definition invoice :: ImageItem where
  "invoice =
     \<lparr>img_id = ''img-1'', url = ''data:1'', base64 = ''data:1'', img_name = ''Invoice.png'',
      category = ''Finance'', description = ''paid in full'',
      ocrTexts = [\<lparr>ocr_id = ''ocr-1-1'', ocr_text = ''Total: 42'',
                   ocr_x = Finite 20, ocr_y = Finite 20\<rparr>],
      folderId = Str ''all''\<rparr>"

definition beach :: ImageItem where
  "beach =
     \<lparr>img_id = ''img-2'', url = ''data:2'', base64 = ''data:2'', img_name = ''beach.jpg'',
      category = ''Travel'', description = ''a sunny beach'', ocrTexts = [],
      folderId = Str ''folder-7''\<rparr>"

definition allFolder :: Folder where
  "allFolder = \<lparr>folder_id = ''all'', folder_name = Some ''All Files''\<rparr>"

definition tripsFolder :: Folder where
  "tripsFolder = \<lparr>folder_id = ''folder-7'', folder_name = Some ''Trips''\<rparr>"

text \<open>Two images, the second filed under the folder \<open>Trips\<close>, which is open.\<close>

definition tripsOpen :: AppState where
  "tripsOpen =
     \<lparr>images = [invoice, beach], folders = [allFolder, tripsFolder],
      currentFolderId = Some ''folder-7'', searchQuery = ''''\<rparr>"


text \<open>Both images under \<open>all\<close>, searched with the given text.\<close>

definition searching :: "string \<Rightarrow> AppState" where
  "searching q =
     \<lparr>images = [invoice, beach], folders = [allFolder, tripsFolder],
      currentFolderId = Some ''all'', searchQuery = q\<rparr>"

text \<open>The offline app showing the gallery of a state: nothing selected, no batch.\<close>

definition gallery :: "AppState \<Rightarrow> App" where
  "gallery s =
     \<lparr>state = s, selectedImageId = None, isAnalyzing = False, multiSelectMode = False,
      batchSelectedIds = [], viewMode = desktop, language = zh\<rparr>"

text \<open>The same app with the invoice open.\<close>

definition viewing :: "AppState \<Rightarrow> App" where
  "viewing s = (gallery s)\<lparr>selectedImageId := Some ''img-1''\<rparr>"

text \<open>The connected app on a state: nothing selected, English.\<close>

definition connected :: "AppState \<Rightarrow> App" where
  "connected s = (gallery s)\<lparr>language := en\<rparr>"

text \<open>The arguments of \<open>create_folder {name: "Trips"}\<close> and of
  \<open>create_folder {name: ""}\<close>.\<close>

definition tripsArgs :: "string \<rightharpoonup> string" where
  "tripsArgs = [''name'' \<mapsto> ''Trips'']"

definition emptyNameArgs :: "string \<rightharpoonup> string" where
  "emptyNameArgs = [''name'' \<mapsto> '''']"

text \<open>A photo, an answer of the remote model with one text block, and a clock that reads
  9 throughout.\<close>

definition photo :: UploadedFile where
  "photo = \<lparr>file_name = ''receipt.png'', file_objectURL = ''blob:3''\<rparr>"

definition answer :: GeminiData where
  "answer =
     \<lparr>data_category = Some ''Receipt'', data_description = None,
      data_texts = Some [\<lparr>raw_text = ''TOTAL'', raw_x = Finite 10, raw_y = Finite 90\<rparr>]\<rparr>"

definition steady :: "nat \<Rightarrow> nat" where
  "steady i = 9"

text \<open>The invoice with the horizontal coordinate of its text block not a number, alone in
  the default tree; and the text of a storage entry cut off in the middle.\<close>

definition blurred :: AppState where
  "blurred =
     (default_tree ''All Files'')
       \<lparr>images := [invoice\<lparr>ocrTexts := [\<lparr>ocr_id = ''ocr-1-1'', ocr_text = ''Total: 42'',
                                           ocr_x = NaN, ocr_y = Finite 20\<rparr>]\<rparr>]\<rparr>"

definition truncatedText :: string where
  \<open>truncatedText = ''{"images":[],"fold''\<close>

section \<open>Reading a decimal numeral back\<close>

text \<open>Used only to show that \<open>string_of_nat\<close> is injective.\<close>

definition digit_value :: "char \<Rightarrow> nat" where
  "digit_value c =
     (case map_of (zip ''0123456789'' [0, 1, 2, 3, 4, 5, 6, 7, 8, 9]) c of
        None \<Rightarrow> 0 | Some d \<Rightarrow> d)"

definition nat_of_string :: "string \<Rightarrow> nat" where
  "nat_of_string s = foldl (\<lambda>acc c. 10 * acc + digit_value c) 0 s"

section \<open>Properties\<close>

subsection \<open>Strings\<close>


lemmas trim_eval = trim_def trimStart_def trimEnd_def dropLeading.simps whiteSpace_def

subsection \<open>Folder deletion\<close>

lemma onDeleteFolder_images: "images (onDeleteFolder f s) = images s"
  by (simp add: onDeleteFolder_def)

lemma onDeleteFolder_folders:
  "folders (onDeleteFolder f s) = filter (\<lambda>fo. folder_id fo \<noteq> f) (folders s)"
  by (simp add: onDeleteFolder_def)

text \<open>
  C1, as the specification states it, fails: deleting the open folder \<open>folder-7\<close> leaves the
  image filed under it with \<open>folderId = folder-7\<close>; only the current folder falls back.
\<close>

theorem onDeleteFolder_keeps_folderId:
  "''folder-7'' \<noteq> ''all''
   \<and> map folderId (images tripsOpen) = [Str ''all'', Str ''folder-7'']
   \<and> map folderId (images (onDeleteFolder ''folder-7'' tripsOpen))
       = [Str ''all'', Str ''folder-7'']
   \<and> currentFolderId (onDeleteFolder ''folder-7'' tripsOpen) = Some ''all''"
  by (simp add: onDeleteFolder_def tripsOpen_def invoice_def beach_def)

text \<open>
  C1 (amended): for every state and every folder id \<open>f\<close> other than \<open>all\<close>, deleting \<open>f\<close>
  gives a state in which no folder has id \<open>f\<close> and the current folder is not \<open>f\<close> (it is
  \<open>all\<close> if it was \<open>f\<close>, and unchanged otherwise); the images are left exactly as they
  were, so an image that referenced \<open>f\<close> still does.
\<close>

theorem onDeleteFolder_drops_folder_and_view:
  assumes "f \<noteq> ''all''"
  shows "currentFolderId (onDeleteFolder f s) \<noteq> Some f
         \<and> currentFolderId (onDeleteFolder f s)
             = (if currentFolderId s = Some f then Some ''all'' else currentFolderId s)
         \<and> list_all (\<lambda>fo. folder_id fo \<noteq> f) (folders (onDeleteFolder f s))
         \<and> images (onDeleteFolder f s) = images s"
proof -
  have "currentFolderId (onDeleteFolder f s) \<noteq> Some f"
    using assms by (simp add: onDeleteFolder_def)
  moreover have "list_all (\<lambda>fo. folder_id fo \<noteq> f) (folders (onDeleteFolder f s))"
    by (simp add: onDeleteFolder_folders list_all_iff)
  ultimately show ?thesis
    by (simp add: onDeleteFolder_def)
qed

theorem onDeleteFolder_drops_folder_and_view_witness:
  "''folder-7'' \<noteq> ''all''
   \<and> currentFolderId (onDeleteFolder ''folder-7'' tripsOpen) = Some ''all''
   \<and> folders (onDeleteFolder ''folder-7'' tripsOpen) = [allFolder]
   \<and> images (onDeleteFolder ''folder-7'' tripsOpen) = [invoice, beach]"
proof -
  have ne: "''folder-7'' \<noteq> ''all''" by simp
  have cur: "currentFolderId tripsOpen = Some ''folder-7''"
    by (simp add: tripsOpen_def)
  have "folders (onDeleteFolder ''folder-7'' tripsOpen) = [allFolder]"
    by (simp add: onDeleteFolder_folders tripsOpen_def allFolder_def tripsFolder_def)
  moreover have "images tripsOpen = [invoice, beach]"
    by (simp add: tripsOpen_def)
  ultimately show ?thesis
    using onDeleteFolder_drops_folder_and_view [OF ne, of tripsOpen] cur by simp
qed

subsection \<open>The derived view\<close>

lemma toLowerCase_Nil_iff: "toLowerCase s = [] \<longleftrightarrow> s = []"
  by (simp add: toLowerCase_def)











subsection \<open>The \<open>all\<close> folder\<close>

lemma hasAllFolder_iff: "hasAllFolder s \<longleftrightarrow> (\<exists>f \<in> set (folders s). folder_id f = ''all'')"
  by (simp add: hasAllFolder_def list_ex_iff)

lemma transition_keeps_all:
  assumes "transition s s'" and "hasAllFolder s"
  shows "hasAllFolder s'"
  using assms
proof (induction rule: transition.induct)
  case (create_and_move s folderName now batch sel)
  then show ?case
    by (auto simp: hasAllFolder_iff createFolderAndMove_update_def Let_def)
next
  case (delete_folder f s)
  then show ?case
    by (auto simp: hasAllFolder_iff onDeleteFolder_def)
next
  case (voice_command name args now app s app')
  then show ?case
    by (auto simp: hasAllFolder_iff handleVoiceCommand_def createFolder_def searchItems_def
        split: if_splits option.splits)
qed (auto simp: hasAllFolder_iff setSearchQuery_def addImage_def updateImageTitle_def
      updateImageCategory_def batchDelete_def onSelect_state_def onUpdateText_def
      onRemoveText_def onAddText_def Let_def)

text \<open>
  C10, as the specification states it, fails: the deletion transition applied with the id
  \<open>all\<close> removes the \<open>all\<close> folder; here it empties the folder list of the default tree.
\<close>

theorem onDeleteFolder_all_removes_all:
  "hasAllFolder (default_tree ''All Files'')
   \<and> folders (onDeleteFolder ''all'' (default_tree ''All Files'')) = []
   \<and> \<not> hasAllFolder (onDeleteFolder ''all'' (default_tree ''All Files''))"
  by (simp add: hasAllFolder_def onDeleteFolder_def default_tree_def)

text \<open>
  C10 (amended): the folder with id \<open>all\<close> is present in every state the apps reach from a
  state that has it (the default tree in particular): no call of \<open>setState\<close> removes it,
  because the sidebar offers deletion only for listed folders whose id is not \<open>all\<close>. The
  deletion transition itself has no such guard.
\<close>

theorem all_folder_always_present:
  assumes "transition\<^sup>*\<^sup>* s0 s" and "hasAllFolder s0"
  shows "hasAllFolder s"
  using assms
  by (induction rule: rtranclp_induct) (auto intro: transition_keeps_all)

theorem all_folder_always_present_witness:
  "hasAllFolder (default_tree ''All Files'')
   \<and> transition\<^sup>*\<^sup>* (default_tree ''All Files'')
        (onDeleteFolder ''folder-7''
          (createFolderAndMove_update ''Trips'' 7 [] None (default_tree ''All Files'')))
   \<and> hasAllFolder
        (onDeleteFolder ''folder-7''
          (createFolderAndMove_update ''Trips'' 7 [] None (default_tree ''All Files'')))"
proof -
  let ?s0 = "default_tree ''All Files''"
  let ?s1 = "createFolderAndMove_update ''Trips'' 7 [] None ?s0"
  have h0: "hasAllFolder ?s0"
    by (simp add: hasAllFolder_def default_tree_def)
  have fs: "folders ?s1 = [allFolder, tripsFolder]"
    by (simp add: createFolderAndMove_update_def default_tree_def Let_def allFolder_def
        tripsFolder_def string_of_nat.simps digit_def)
  have "tripsFolder \<in> set (folders ?s1)" and "folder_id tripsFolder \<noteq> ''all''"
    by (simp_all add: fs tripsFolder_def)
  then have "transition ?s1 (onDeleteFolder (folder_id tripsFolder) ?s1)"
    by (rule transition.delete_folder)
  then have t2: "transition ?s1 (onDeleteFolder ''folder-7'' ?s1)"
    by (simp add: tripsFolder_def)
  have t1: "transition ?s0 ?s1"
    by (rule transition.create_and_move)
  from t1 t2 have path: "transition\<^sup>*\<^sup>* ?s0 (onDeleteFolder ''folder-7'' ?s1)"
    by (meson rtranclp.rtrancl_into_rtrancl rtranclp.rtrancl_refl)
  from all_folder_always_present [OF path h0] h0 path show ?thesis
    by blast
qed

subsection \<open>Folder creation and move\<close>

lemma idsToMove_batch: "batch \<noteq> [] \<Longrightarrow> idsToMove batch sel prev = batch"
  by (simp add: idsToMove_def)

lemma idsToMove_selected:
  "sid \<noteq> [] \<Longrightarrow> idsToMove [] (Some sid) prev = [sid]"
  by (simp add: idsToMove_def)

lemma idsToMove_current:
  "\<not> truthy sel \<Longrightarrow> idsToMove [] sel prev = map img_id (currentImages prev)"
  by (cases sel) (simp_all add: idsToMove_def truthy_def)

lemma handleCreateFolderAndMove_hooks:
  "batchSelectedIds (handleCreateFolderAndMove folderName now app) = []
   \<and> multiSelectMode (handleCreateFolderAndMove folderName now app) = False
   \<and> selectedImageId (handleCreateFolderAndMove folderName now app) = None"
  by (simp add: handleCreateFolderAndMove_def)

lemma handleCreateFolderAndMove_folders:
  "folders (state (handleCreateFolderAndMove folderName now app))
     = folders (state app)
       @ [\<lparr>folder_id = ''folder-'' @ string_of_nat now, folder_name = Some folderName\<rparr>]
   \<and> currentFolderId (state (handleCreateFolderAndMove folderName now app))
       = Some (''folder-'' @ string_of_nat now)"
  by (simp add: handleCreateFolderAndMove_def createFolderAndMove_update_def Let_def)

lemma handleCreateFolderAndMove_images:
  "images (state (handleCreateFolderAndMove folderName now app))
     = map (\<lambda>img. if img_id img
                       \<in> set (idsToMove (batchSelectedIds app) (selectedImageId app) (state app))
                   then img\<lparr>folderId := Str (''folder-'' @ string_of_nat now)\<rparr> else img)
           (images (state app))"
  by (simp add: handleCreateFolderAndMove_def createFolderAndMove_update_def Let_def)

lemma currentImages_without_query:
  assumes "searchQuery s = []" and "truthy (currentFolderId s)"
  shows "currentImages s = filteredImages s"
proof (cases "currentFolderId s = Some ''all''")
  case True
  with assms show ?thesis
    by (simp add: currentImages_def filteredImages_def inFolder_def matchesSearch_def)
next
  case False
  with assms show ?thesis
    by (simp add: currentImages_def filteredImages_def inFolder_def matchesSearch_def)
qed

text \<open>
  C2: with no batch and no open image the command is to move the currently visible set.
  Searching \<open>42\<close> shows the invoice (the text is on the image), yet the third tier tests the
  image name only, finds nothing to move and files no image under the new folder.
\<close>

theorem createFolderAndMove_ocr_match_not_moved:
  "map img_id (filteredImages (searching ''42'')) = [''img-1'']
   \<and> idsToMove (batchSelectedIds (gallery (searching ''42'')))
        (selectedImageId (gallery (searching ''42''))) (searching ''42'') = []
   \<and> map folderId (images (state (handleCreateFolderAndMove ''Bills'' 9
        (gallery (searching ''42''))))) = [Str ''all'', Str ''folder-7'']
   \<and> currentFolderId (state (handleCreateFolderAndMove ''Bills'' 9
        (gallery (searching ''42'')))) = Some ''folder-9''"
proof -
  have "filteredImages (searching ''42'') = [invoice]"
    by (simp add: filteredImages_def searching_def truthy_def matchesQuery_def
        toLowerCase_def lower_char_def invoice_def beach_def)
  moreover have ids: "idsToMove [] None (searching ''42'') = []"
    by (simp add: idsToMove_def currentImages_def matchesSearch_def inFolder_def
        searching_def toLowerCase_def lower_char_def invoice_def beach_def)
  moreover have "map folderId (images (state (handleCreateFolderAndMove ''Bills'' 9
        (gallery (searching ''42''))))) = [Str ''all'', Str ''folder-7'']"
    by (simp add: handleCreateFolderAndMove_images gallery_def ids)
      (simp add: searching_def invoice_def beach_def)
  moreover have "string_of_nat 9 = ''9''"
    by (simp add: string_of_nat.simps digit_def)
  ultimately show ?thesis
    by (simp add: handleCreateFolderAndMove_folders gallery_def invoice_def)
qed

text \<open>
  C3: in the third tier the images moved are to be exactly those the derived view shows.
  Searching \<open>finance\<close> shows the invoice through its category; the third tier, which
  compares the query with the image name only, selects no image at all.
\<close>

theorem third_tier_ignores_category:
  "filteredImages (searching ''finance'') = [invoice]
   \<and> currentImages (searching ''finance'') = []
   \<and> images (createFolderAndMove_update ''Bills'' 9 [] None (searching ''finance''))
       = [invoice, beach]"
proof -
  have "filteredImages (searching ''finance'') = [invoice]"
    by (simp add: filteredImages_def searching_def truthy_def matchesQuery_def
        toLowerCase_def lower_char_def invoice_def beach_def)
  moreover have cur: "currentImages (searching ''finance'') = []"
    by (simp add: currentImages_def matchesSearch_def inFolder_def
        searching_def toLowerCase_def lower_char_def invoice_def beach_def)
  moreover have "images (createFolderAndMove_update ''Bills'' 9 [] None (searching ''finance''))
       = [invoice, beach]"
    by (simp add: createFolderAndMove_update_def idsToMove_def cur Let_def)
      (simp add: searching_def)
  ultimately show ?thesis by blast
qed

subsection \<open>Voice commands\<close>

lemma onresult_create_folder_empty:
  assumes "\<not> isSwitchView (trim raw)" and "\<not> isSwitchLanguage (trim raw)"
    and "isCreateFolder (trim raw)" and "folderNameOf (trim raw) = []"
  shows "onresult raw now app = app"
  using assms by (simp add: onresult_def Let_def)

lemma onresult_empty_name_state:
  assumes "isCreateFolder (trim raw)" and "folderNameOf (trim raw) = []"
  shows "state (onresult raw now app) = state app"
  using assms by (simp add: onresult_def Let_def)

lemma createFolder_existing:
  assumes "list_ex (\<lambda>f. folder_name f = nm) (folders s)"
  shows "createFolder nm now s = s"
  using assms by (simp add: createFolder_def)

lemma createFolder_exists_after:
  "list_ex (\<lambda>f. folder_name f = nm) (folders (createFolder nm now s))"
  by (simp add: createFolder_def list_ex_iff)

lemma createFolder_twice: "createFolder nm now' (createFolder nm now s) = createFolder nm now s"
  by (rule createFolder_existing) (rule createFolder_exists_after)

lemma createFolder_new:
  assumes "\<not> list_ex (\<lambda>f. folder_name f = nm) (folders s)"
  shows "folders (createFolder nm now s)
         = folders s @ [\<lparr>folder_id = ''folder-'' @ string_of_nat now, folder_name = nm\<rparr>]"
  using assms by (simp add: createFolder_def)

lemma createFolder_count:
  assumes "\<not> list_ex (\<lambda>f. folder_name f = nm) (folders s)"
  shows "length (filter (\<lambda>f. folder_name f = nm) (folders (createFolder nm now s))) = 1"
proof -
  have "filter (\<lambda>f. folder_name f = nm) (folders s) = []"
    using assms by (simp add: list_ex_iff filter_empty_conv)
  then show ?thesis
    by (simp add: createFolder_new [OF assms])
qed

lemma create_folder_call:
  "handleVoiceCommand ''create_folder'' (Some a) now app
   = Inr (app\<lparr>state := createFolder (a ''name'') now (state app)\<rparr>)"
  by (simp add: handleVoiceCommand_def)

lemma unknown_tool_call:
  assumes "name \<noteq> ''create_folder''" and "name \<noteq> ''search_items''"
  shows "handleVoiceCommand name args now app = Inr app"
  using assms by (simp add: handleVoiceCommand_def)

text \<open>
  C8, as the specification states it, fails on the structured path: \<open>create_folder\<close> with
  the empty name is not a no-op, it adds a folder named by the empty string; and a
  \<open>create_folder\<close> call that carries no argument object is not absorbed, the updater
  throws a \<open>TypeError\<close>.
\<close>

theorem create_folder_empty_name_adds_folder:
  "folders (state (connected (default_tree ''All Files''))) = [allFolder]
   \<and> handleVoiceCommand ''create_folder'' (Some emptyNameArgs) 9
        (connected (default_tree ''All Files''))
      = Inr ((connected (default_tree ''All Files''))
              \<lparr>state := (default_tree ''All Files'')
                 \<lparr>folders := [allFolder, \<lparr>folder_id = ''folder-9'', folder_name = Some ''''\<rparr>]\<rparr>\<rparr>)
   \<and> handleVoiceCommand ''create_folder'' None 9 (connected (default_tree ''All Files''))
      = Inl TypeError"
  by (simp add: handleVoiceCommand_def createFolder_def connected_def gallery_def
      default_tree_def allFolder_def emptyNameArgs_def string_of_nat.simps digit_def)

text \<open>
  C8 (amended): a spoken create-folder command whose folder name is empty leaves the
  application state unchanged (and, when it reaches the create-folder branch, the whole
  component). A structured \<open>create_folder\<close> that carries an argument object raises
  nothing; when its name is the name of an existing folder it returns the component
  unchanged, so a second call is a no-op and two calls from a state without that name
  leave exactly one folder of that name; when no folder has its name it appends one folder
  of that name, whatever the name is, the empty string included. A tool call of any other
  name than \<open>create_folder\<close> and \<open>search_items\<close> returns the component unchanged and raises
  nothing, with or without an argument object. A \<open>create_folder\<close> or \<open>search_items\<close> call
  without an argument object makes the updater throw a \<open>TypeError\<close>.
\<close>

theorem invalid_commands_absorbed:
  "(isCreateFolder (trim raw) \<and> folderNameOf (trim raw) = []
      \<longrightarrow> state (onresult raw now app) = state app)
   \<and> (\<not> isSwitchView (trim raw) \<and> \<not> isSwitchLanguage (trim raw)
        \<and> isCreateFolder (trim raw) \<and> folderNameOf (trim raw) = []
      \<longrightarrow> onresult raw now app = app)
   \<and> handleVoiceCommand ''create_folder'' (Some a) now app
      = Inr (app\<lparr>state := createFolder (a ''name'') now (state app)\<rparr>)
   \<and> (list_ex (\<lambda>f. folder_name f = a ''name'') (folders (state app))
      \<longrightarrow> handleVoiceCommand ''create_folder'' (Some a) now app = Inr app)
   \<and> createFolder nm now' (createFolder nm now s) = createFolder nm now s
   \<and> (\<not> list_ex (\<lambda>f. folder_name f = nm) (folders s)
      \<longrightarrow> folders (createFolder nm now s)
            = folders s @ [\<lparr>folder_id = ''folder-'' @ string_of_nat now, folder_name = nm\<rparr>]
          \<and> length (filter (\<lambda>f. folder_name f = nm)
               (folders (createFolder nm now' (createFolder nm now s)))) = 1)
   \<and> (name \<noteq> ''create_folder'' \<and> name \<noteq> ''search_items''
      \<longrightarrow> handleVoiceCommand name args now app = Inr app)
   \<and> handleVoiceCommand ''create_folder'' None now app = Inl TypeError
   \<and> handleVoiceCommand ''search_items'' None now app = Inl TypeError"
proof (intro conjI impI)
  assume "isCreateFolder (trim raw) \<and> folderNameOf (trim raw) = []"
  then show "state (onresult raw now app) = state app"
    by (simp add: onresult_empty_name_state)
next
  assume "\<not> isSwitchView (trim raw) \<and> \<not> isSwitchLanguage (trim raw)
        \<and> isCreateFolder (trim raw) \<and> folderNameOf (trim raw) = []"
  then show "onresult raw now app = app"
    by (simp add: onresult_create_folder_empty)
next
  show "handleVoiceCommand ''create_folder'' (Some a) now app
      = Inr (app\<lparr>state := createFolder (a ''name'') now (state app)\<rparr>)"
    by (rule create_folder_call)
next
  assume "list_ex (\<lambda>f. folder_name f = a ''name'') (folders (state app))"
  then show "handleVoiceCommand ''create_folder'' (Some a) now app = Inr app"
    by (simp add: create_folder_call createFolder_existing)
next
  show "createFolder nm now' (createFolder nm now s) = createFolder nm now s"
    by (rule createFolder_twice)
next
  assume new: "\<not> list_ex (\<lambda>f. folder_name f = nm) (folders s)"
  show "folders (createFolder nm now s)
          = folders s @ [\<lparr>folder_id = ''folder-'' @ string_of_nat now, folder_name = nm\<rparr>]"
    by (rule createFolder_new [OF new])
  show "length (filter (\<lambda>f. folder_name f = nm)
             (folders (createFolder nm now' (createFolder nm now s)))) = 1"
    unfolding createFolder_twice by (rule createFolder_count [OF new])
next
  assume "name \<noteq> ''create_folder'' \<and> name \<noteq> ''search_items''"
  then show "handleVoiceCommand name args now app = Inr app"
    by (simp add: unknown_tool_call)
next
  show "handleVoiceCommand ''create_folder'' None now app = Inl TypeError"
    and "handleVoiceCommand ''search_items'' None now app = Inl TypeError"
    by (simp_all add: handleVoiceCommand_def)
qed

lemma create_folder_spoken_alone:
  "trim ''create folder  '' = ''create folder''
   \<and> \<not> isSwitchView ''create folder'' \<and> \<not> isSwitchLanguage ''create folder''
   \<and> isCreateFolder ''create folder'' \<and> folderNameOf ''create folder'' = []"
  by (simp add: trim_eval isSwitchView_def isSwitchLanguage_def
      isCreateFolder_def folderNameOf_def startsWith_def matchAt_def toLowerCase_def
      lower_char_def zh_switch_view_def zh_switch_language_def zh_create_folder_def)

theorem invalid_commands_absorbed_witness:
  "onresult ''create folder  '' 9 (viewing tripsOpen) = viewing tripsOpen
   \<and> map folder_name (folders
        (createFolder (tripsArgs ''name'') 8
          (createFolder (tripsArgs ''name'') 7 (default_tree ''All Files''))))
       = [Some ''All Files'', Some ''Trips'']
   \<and> handleVoiceCommand ''create_folder'' (Some tripsArgs) 8 (connected tripsOpen)
       = Inr (connected tripsOpen)
   \<and> handleVoiceCommand ''delete_universe'' None 9 (connected tripsOpen)
       = Inr (connected tripsOpen)"
proof -
  note spoken = invalid_commands_absorbed [THEN conjunct2, THEN conjunct1, rule_format]
  note existing = invalid_commands_absorbed
    [THEN conjunct2, THEN conjunct2, THEN conjunct2, THEN conjunct1, rule_format]
  note twice = invalid_commands_absorbed
    [THEN conjunct2, THEN conjunct2, THEN conjunct2, THEN conjunct2, THEN conjunct1]
  note unknown = invalid_commands_absorbed
    [THEN conjunct2, THEN conjunct2, THEN conjunct2, THEN conjunct2, THEN conjunct2,
      THEN conjunct2, THEN conjunct1, rule_format]
  have "\<not> isSwitchView (trim ''create folder  '')
        \<and> \<not> isSwitchLanguage (trim ''create folder  '')
        \<and> isCreateFolder (trim ''create folder  '')
        \<and> folderNameOf (trim ''create folder  '') = []"
    using create_folder_spoken_alone by simp
  then have a: "onresult ''create folder  '' 9 (viewing tripsOpen) = viewing tripsOpen"
    by (rule spoken)
  have "list_ex (\<lambda>f. folder_name f = tripsArgs ''name'')
          (folders (state (connected tripsOpen)))"
    by (simp add: connected_def gallery_def tripsOpen_def tripsArgs_def tripsFolder_def)
  then have b: "handleVoiceCommand ''create_folder'' (Some tripsArgs) 8 (connected tripsOpen)
       = Inr (connected tripsOpen)"
    by (rule existing)
  have "''delete_universe'' \<noteq> ''create_folder'' \<and> ''delete_universe'' \<noteq> ''search_items''"
    by simp
  then have c: "handleVoiceCommand ''delete_universe'' None 9 (connected tripsOpen)
       = Inr (connected tripsOpen)"
    by (rule unknown)
  have "createFolder (tripsArgs ''name'') 8
          (createFolder (tripsArgs ''name'') 7 (default_tree ''All Files''))
        = createFolder (tripsArgs ''name'') 7 (default_tree ''All Files'')"
    by (rule twice)
  then have d: "map folder_name (folders
        (createFolder (tripsArgs ''name'') 8
          (createFolder (tripsArgs ''name'') 7 (default_tree ''All Files''))))
       = [Some ''All Files'', Some ''Trips'']"
    by (simp add: createFolder_def default_tree_def tripsArgs_def)
  from a d b c show ?thesis by (intro conjI)
qed

text \<open>
  C9, as the specification states it, fails: with the invoice open, the utterance \<open>cats\<close>
  matches no command phrase and becomes the search query, and the invoice stays selected.
\<close>

theorem spoken_search_keeps_selection:
  "searchQuery (state (onresult '' cats '' 9 (viewing tripsOpen))) = ''cats''
   \<and> selectedImageId (viewing tripsOpen) = Some ''img-1''
   \<and> selectedImageId (onresult '' cats '' 9 (viewing tripsOpen)) = Some ''img-1''"
  by (simp add: onresult_def Let_def trim_eval isSwitchView_def
      isSwitchLanguage_def isCreateFolder_def startsWith_def toLowerCase_def
      lower_char_def zh_switch_view_def zh_switch_language_def zh_create_folder_def
      setSearchQuery_def viewing_def gallery_def)

text \<open>
  C9 (amended): an utterance whose trimmed transcript matches none of the command phrases
  (switch view, switch language, create folder) sets \<open>searchQuery\<close> to that trimmed
  transcript, unchanged in case, and changes nothing else: an open image stays selected.
\<close>

theorem onresult_search_sets_query_only:
  assumes "\<not> isSwitchView (trim raw)" and "\<not> isSwitchLanguage (trim raw)"
    and "\<not> isCreateFolder (trim raw)"
  shows "onresult raw now app = app\<lparr>state := (state app)\<lparr>searchQuery := trim raw\<rparr>\<rparr>
         \<and> searchQuery (state (onresult raw now app)) = trim raw
         \<and> selectedImageId (onresult raw now app) = selectedImageId app"
  using assms by (simp add: onresult_def Let_def setSearchQuery_def)

lemma cats_is_no_command:
  "trim '' Cats '' = ''Cats'' \<and> \<not> isSwitchView ''Cats'' \<and> \<not> isSwitchLanguage ''Cats''
   \<and> \<not> isCreateFolder ''Cats''"
  by (simp add: trim_eval isSwitchView_def isSwitchLanguage_def
      isCreateFolder_def startsWith_def toLowerCase_def lower_char_def
      zh_switch_view_def zh_switch_language_def zh_create_folder_def)

theorem onresult_search_sets_query_only_witness:
  "\<not> isSwitchView (trim '' Cats '') \<and> \<not> isSwitchLanguage (trim '' Cats '')
   \<and> \<not> isCreateFolder (trim '' Cats '')
   \<and> searchQuery (state (onresult '' Cats '' 9 (viewing tripsOpen))) = ''Cats''
   \<and> selectedImageId (onresult '' Cats '' 9 (viewing tripsOpen)) = Some ''img-1''"
proof -
  have h: "\<not> isSwitchView (trim '' Cats '')" "\<not> isSwitchLanguage (trim '' Cats '')"
    "\<not> isCreateFolder (trim '' Cats '')"
    using cats_is_no_command by simp_all
  have "selectedImageId (viewing tripsOpen) = Some ''img-1''"
    by (simp add: viewing_def)
  with onresult_search_sets_query_only [OF h, of 9 "viewing tripsOpen"] h cats_is_no_command
  show ?thesis by simp
qed

subsection \<open>Decimal numerals\<close>

lemma below_ten: "(d::nat) < 10 \<Longrightarrow> d \<in> {0, 1, 2, 3, 4, 5, 6, 7, 8, 9}"
  by auto

lemma digit_value_digit: "d < 10 \<Longrightarrow> digit_value (digit d) = d"
  by (drule below_ten) (auto simp: digit_def digit_value_def)

lemma digit_no_dash: "d < 10 \<Longrightarrow> digit d \<noteq> CHR ''-''"
  by (drule below_ten) (auto simp: digit_def)

lemma nat_of_string_snoc: "nat_of_string (s @ [c]) = 10 * nat_of_string s + digit_value c"
  by (simp add: nat_of_string_def)

lemma nat_of_string_of_nat: "nat_of_string (string_of_nat n) = n"
proof (induction n rule: string_of_nat.induct)
  case (1 n)
  show ?case
  proof (cases "n < 10")
    case True
    then show ?thesis
      by (simp add: string_of_nat.simps [of n] nat_of_string_def digit_value_digit)
  next
    case False
    with 1 show ?thesis
      by (simp add: string_of_nat.simps [of n] nat_of_string_snoc digit_value_digit)
  qed
qed

lemma string_of_nat_inj: "string_of_nat n = string_of_nat m \<Longrightarrow> n = m"
  by (metis nat_of_string_of_nat)

lemma string_of_nat_no_dash: "CHR ''-'' \<notin> set (string_of_nat n)"
proof (induction n rule: string_of_nat.induct)
  case (1 n)
  show ?case
  proof (cases "n < 10")
    case True
    then show ?thesis
      using digit_no_dash [of n] by (simp add: string_of_nat.simps [of n])
  next
    case False
    with 1 show ?thesis
      using digit_no_dash [of "n mod 10"] by (simp add: string_of_nat.simps [of n])
  qed
qed

lemma string_of_nat_9: "string_of_nat 9 = ''9''"
  by (simp add: string_of_nat.simps digit_def)

subsection \<open>Ingestion\<close>

lemma ocr_id_index:
  assumes "''ocr-'' @ string_of_nat i @ ''-'' @ string_of_nat a
           = ''ocr-'' @ string_of_nat j @ ''-'' @ string_of_nat b"
  shows "i = j"
proof -
  from assms have "string_of_nat i @ CHR ''-'' # string_of_nat a
                   = string_of_nat j @ CHR ''-'' # string_of_nat b"
    by simp
  then have "string_of_nat i = string_of_nat j"
    using string_of_nat_no_dash by (simp add: append_Cons_eq_iff)
  then show ?thesis by (rule string_of_nat_inj)
qed

lemma remote_ids_distinct:
  "distinct (map (\<lambda>(i, t). ''ocr-'' @ string_of_nat i @ ''-'' @ string_of_nat (clock i))
               (enumerate n ts))"
proof -
  let ?f = "\<lambda>(i, t). ''ocr-'' @ string_of_nat i @ ''-'' @ string_of_nat (clock i)"
  have "inj_on ?f (set (enumerate n ts))"
  proof (rule inj_onI)
    fix p q
    assume a: "p \<in> set (enumerate n ts)" and b: "q \<in> set (enumerate n ts)"
      and eq: "?f p = ?f q"
    from eq have "''ocr-'' @ string_of_nat (fst p) @ ''-'' @ string_of_nat (clock (fst p))
               = ''ocr-'' @ string_of_nat (fst q) @ ''-'' @ string_of_nat (clock (fst q))"
      by (simp add: case_prod_unfold)
    then have "fst p = fst q" by (rule ocr_id_index)
    moreover obtain i t j u where pq: "p = (i, t)" "q = (j, u)"
      by (cases p, cases q) blast
    ultimately show "p = q"
      using a b by (auto simp: in_set_enumerate_eq)
  qed
  then show ?thesis
    by (simp add: distinct_map distinct_enumerate)
qed

lemma analysisOf_ids:
  "map ocr_id (a_texts (analysisOf clock d))
   = map (\<lambda>(i, t). ''ocr-'' @ string_of_nat i @ ''-'' @ string_of_nat (clock i))
       (enumerate 0 (case data_texts d of None \<Rightarrow> [] | Some ts \<Rightarrow> ts))"
  by (simp add: analysisOf_def comp_def case_prod_unfold)

lemma analysisOf_distinct: "distinct (map ocr_id (a_texts (analysisOf clock d)))"
  unfolding analysisOf_ids by (rule remote_ids_distinct)

lemma analyzeImage_local_distinct:
  "distinct (map ocr_id (a_texts (analyzeImage_local b n ta tb tc)))"
  by (simp add: analyzeImage_local_def Let_def split: prod.splits)

lemma newItem_offline_folder:
  "folderId (newItem_offline upl b64 captured now a) = refOf (currentFolderId captured)"
  by (simp add: newItem_offline_def refOf_def)

lemma stamped_fresh:
  assumes "stampedBefore now s"
  shows "''img-'' @ string_of_nat now \<notin> set (map img_id (images s))"
proof
  assume "''img-'' @ string_of_nat now \<in> set (map img_id (images s))"
  then obtain img where img: "img \<in> set (images s)"
    and eq: "img_id img = ''img-'' @ string_of_nat now"
    by auto
  from assms img obtain t where "t < now" and "img_id img = ''img-'' @ string_of_nat t"
    by (auto simp: stampedBefore_def list_all_iff list_ex_iff)
  with eq have "string_of_nat now = string_of_nat t" by simp
  then have "now = t" by (rule string_of_nat_inj)
  with \<open>t < now\<close> show False by simp
qed

lemma stamped_later:
  assumes "stampedBefore now s" and "now \<le> later"
  shows "stampedBefore later s"
  using assms by (fastforce simp: stampedBefore_def list_all_iff list_ex_iff)

lemma stamped_step:
  assumes "stampedBefore now s" and "img_id item = ''img-'' @ string_of_nat now"
  shows "stampedBefore (Suc now) (addImage item s)"
proof -
  have "stampedBefore (Suc now) s"
    using assms(1) by (rule stamped_later) simp
  moreover have "list_ex (\<lambda>t. img_id item = ''img-'' @ string_of_nat t) [0..<Suc now]"
    using assms(2) by (auto simp: list_ex_iff)
  ultimately show ?thesis
    by (simp add: stampedBefore_def addImage_def)
qed

lemma stamped_distinct:
  assumes "distinct (map img_id (images s))" and "stampedBefore now s"
    and "img_id item = ''img-'' @ string_of_nat now"
  shows "distinct (map img_id (images (addImage item s)))"
  using assms stamped_fresh [of now s] by (simp add: addImage_def)

text \<open>
  C6, as the specification states it, fails twice. In the connected app, with the folder
  \<open>folder-7\<close> open, the uploaded photo is filed under \<open>all\<close>. And the id is made from the
  clock reading alone: an upload at a reading that a stored image already carries (here
  1, the reading of \<open>img-1\<close>) repeats that id.
\<close>

theorem connected_upload_files_under_all:
  "currentFolderId (state (connected tripsOpen)) = Some ''folder-7''
   \<and> map folderId (images (state
        (handleFileUpload_connected (Some photo) (Some ''data:3'') 9 steady (Inr answer)
          (connected tripsOpen))))
       = [Str ''all'', Str ''all'', Str ''folder-7'']
   \<and> map img_id (images (state
        (handleFileUpload_connected (Some photo) (Some ''data:3'') 1 steady (Inr answer)
          (connected tripsOpen))))
       = [''img-1'', ''img-1'', ''img-2'']"
  by (simp add: handleFileUpload_connected_def onload_connected_def analyzeImage_remote_def
      newItem_connected_def addImage_def connected_def gallery_def tripsOpen_def
      invoice_def beach_def string_of_nat.simps digit_def)

text \<open>
  C6 (amended): on successful ingestion the new item is prepended to \<open>images\<close>; it carries
  the encoded payload, the file name and the category, description and text blocks of the
  analysis, and the text blocks of one analysis have pairwise different ids. Its id is
  \<open>img-\<close> followed by the clock reading: different readings give different ids, so the id
  is fresh and the ids stay unique as long as every stored id is \<open>img-\<close> followed by an
  earlier reading, and that in turn holds again after the upload. In the offline app its
  \<open>folderId\<close> is the current folder of the state in which the file was chosen (\<open>all\<close> for
  the \<open>all\<close> folder); in the connected app its \<open>folderId\<close> is always \<open>all\<close>.
\<close>

theorem upload_prepends_synthesized_item:
  "images (state (onload_offline upl b64 captured now ta tb tc app))
     = newItem_offline upl b64 captured now (analyzeImage_local b64 (file_name upl) ta tb tc)
       # images (state app)
   \<and> handleFileUpload_offline (Some upl) (Some b64) now ta tb tc app
       = onload_offline upl b64 (state app) now ta tb tc (app\<lparr>isAnalyzing := True\<rparr>)
   \<and> newItem_offline upl b64 captured now a
       = \<lparr>img_id = ''img-'' @ string_of_nat now, url = b64, base64 = b64,
          img_name = file_name upl, category = a_category a,
          description = a_description a, ocrTexts = a_texts a,
          folderId = refOf (currentFolderId captured)\<rparr>
   \<and> distinct (map ocr_id (a_texts (analyzeImage_local b64 fileName ta tb tc)))
   \<and> images (state (onload_connected upl b64 now clock (Inr d) app))
       = newItem_connected upl b64 now (analysisOf clock d) # images (state app)
   \<and> newItem_connected upl b64 now a
       = \<lparr>img_id = ''img-'' @ string_of_nat now, url = file_objectURL upl, base64 = b64,
          img_name = file_name upl, category = a_category a,
          description = a_description a, ocrTexts = a_texts a, folderId = Str ''all''\<rparr>
   \<and> distinct (map ocr_id (a_texts (analysisOf clock d)))
   \<and> (''img-'' @ string_of_nat now = ''img-'' @ string_of_nat now' \<longrightarrow> now = now')
   \<and> (distinct (map img_id (images s)) \<and> stampedBefore now s
        \<longrightarrow> distinct (map img_id (images (addImage (newItem_offline upl b64 captured now a) s)))
            \<and> distinct (map img_id (images (addImage (newItem_connected upl b64 now a) s)))
            \<and> stampedBefore (Suc now) (addImage (newItem_offline upl b64 captured now a) s)
            \<and> stampedBefore (Suc now) (addImage (newItem_connected upl b64 now a) s))"
proof (intro conjI impI)
  show "images (state (onload_offline upl b64 captured now ta tb tc app))
     = newItem_offline upl b64 captured now (analyzeImage_local b64 (file_name upl) ta tb tc)
       # images (state app)"
    by (simp add: onload_offline_def addImage_def Let_def)
  show "handleFileUpload_offline (Some upl) (Some b64) now ta tb tc app
       = onload_offline upl b64 (state app) now ta tb tc (app\<lparr>isAnalyzing := True\<rparr>)"
    by (simp add: handleFileUpload_offline_def)
  show "newItem_offline upl b64 captured now a
       = \<lparr>img_id = ''img-'' @ string_of_nat now, url = b64, base64 = b64,
          img_name = file_name upl, category = a_category a,
          description = a_description a, ocrTexts = a_texts a,
          folderId = refOf (currentFolderId captured)\<rparr>"
    by (simp add: newItem_offline_def refOf_def)
  show "distinct (map ocr_id (a_texts (analyzeImage_local b64 fileName ta tb tc)))"
    by (rule analyzeImage_local_distinct)
  show "images (state (onload_connected upl b64 now clock (Inr d) app))
       = newItem_connected upl b64 now (analysisOf clock d) # images (state app)"
    by (simp add: onload_connected_def analyzeImage_remote_def addImage_def)
  show "newItem_connected upl b64 now a
       = \<lparr>img_id = ''img-'' @ string_of_nat now, url = file_objectURL upl, base64 = b64,
          img_name = file_name upl, category = a_category a,
          description = a_description a, ocrTexts = a_texts a, folderId = Str ''all''\<rparr>"
    by (simp add: newItem_connected_def)
  show "distinct (map ocr_id (a_texts (analysisOf clock d)))"
    by (rule analysisOf_distinct)
next
  assume "''img-'' @ string_of_nat now = ''img-'' @ string_of_nat now'"
  then show "now = now'"
    by (auto dest: string_of_nat_inj)
next
  assume h: "distinct (map img_id (images s)) \<and> stampedBefore now s"
  have off: "img_id (newItem_offline upl b64 captured now a) = ''img-'' @ string_of_nat now"
    and con: "img_id (newItem_connected upl b64 now a) = ''img-'' @ string_of_nat now"
    by (simp_all add: newItem_offline_def newItem_connected_def)
  from h off
  show "distinct (map img_id (images (addImage (newItem_offline upl b64 captured now a) s)))"
    by (blast intro: stamped_distinct)
  from h con
  show "distinct (map img_id (images (addImage (newItem_connected upl b64 now a) s)))"
    by (blast intro: stamped_distinct)
  from h off
  show "stampedBefore (Suc now) (addImage (newItem_offline upl b64 captured now a) s)"
    by (blast intro: stamped_step)
  from h con
  show "stampedBefore (Suc now) (addImage (newItem_connected upl b64 now a) s)"
    by (blast intro: stamped_step)
qed

lemma tripsOpen_stamped: "stampedBefore 9 tripsOpen \<and> distinct (map img_id (images tripsOpen))"
proof -
  have "list_ex (\<lambda>t. ''img-1'' = ''img-'' @ string_of_nat t) [0..<9]"
    unfolding list_ex_iff by (rule bexI [of _ 1]) (simp_all add: string_of_nat.simps digit_def)
  moreover have "list_ex (\<lambda>t. ''img-2'' = ''img-'' @ string_of_nat t) [0..<9]"
    unfolding list_ex_iff by (rule bexI [of _ 2]) (simp_all add: string_of_nat.simps digit_def)
  ultimately show ?thesis
    by (simp add: stampedBefore_def tripsOpen_def invoice_def beach_def)
qed

theorem upload_prepends_synthesized_item_witness:
  "map img_id (images (state
      (handleFileUpload_offline (Some photo) (Some ''data:3'') 9 9 9 9 (gallery tripsOpen))))
     = [''img-9'', ''img-1'', ''img-2'']
   \<and> map folderId (images (state
      (handleFileUpload_offline (Some photo) (Some ''data:3'') 9 9 9 9 (gallery tripsOpen))))
     = [Str ''folder-7'', Str ''all'', Str ''folder-7'']
   \<and> map img_id (images (state (onload_connected photo ''data:3'' 9 steady (Inr answer)
        (connected tripsOpen))))
     = [''img-9'', ''img-1'', ''img-2'']
   \<and> map ocr_id (a_texts (analysisOf steady answer)) = [''ocr-0-9'']
   \<and> distinct (map img_id (images (addImage
        (newItem_connected photo ''data:3'' 9 (analysisOf steady answer)) tripsOpen)))
   \<and> stampedBefore 10 (addImage
        (newItem_connected photo ''data:3'' 9 (analysisOf steady answer)) tripsOpen)"
proof -
  note item = upload_prepends_synthesized_item
    [where upl = photo and ?b64.0 = "''data:3''" and now = 9 and ta = 9 and tb = 9 and tc = 9
      and clock = steady and d = answer and s = tripsOpen]
  have stored: "map img_id (images tripsOpen) = [''img-1'', ''img-2'']"
    by (simp add: tripsOpen_def invoice_def beach_def)
  have cur: "currentFolderId tripsOpen = Some ''folder-7''"
    by (simp add: tripsOpen_def)
  have folders: "map folderId (images tripsOpen) = [Str ''all'', Str ''folder-7'']"
    by (simp add: tripsOpen_def invoice_def beach_def)
  have handler: "handleFileUpload_offline (Some photo) (Some ''data:3'') 9 9 9 9
        (gallery tripsOpen)
      = onload_offline photo ''data:3'' tripsOpen 9 9 9 9
          ((gallery tripsOpen)\<lparr>isAnalyzing := True\<rparr>)"
    using item [where app = "gallery tripsOpen", THEN conjunct2, THEN conjunct1]
    by (simp add: gallery_def)
  have off: "images (state (handleFileUpload_offline (Some photo) (Some ''data:3'') 9 9 9 9
        (gallery tripsOpen)))
      = newItem_offline photo ''data:3'' tripsOpen 9
          (analyzeImage_local ''data:3'' (file_name photo) 9 9 9)
        # images tripsOpen"
    unfolding handler
    using item [where app = "(gallery tripsOpen)\<lparr>isAnalyzing := True\<rparr>"
        and captured = tripsOpen, THEN conjunct1]
    by (simp add: gallery_def)
  have a: "map img_id (images (state
      (handleFileUpload_offline (Some photo) (Some ''data:3'') 9 9 9 9 (gallery tripsOpen))))
     = [''img-9'', ''img-1'', ''img-2'']"
    unfolding off by (simp add: newItem_offline_def stored string_of_nat_9)
  have b: "map folderId (images (state
      (handleFileUpload_offline (Some photo) (Some ''data:3'') 9 9 9 9 (gallery tripsOpen))))
     = [Str ''folder-7'', Str ''all'', Str ''folder-7'']"
    unfolding off by (simp add: newItem_offline_folder folders cur refOf_def)
  have c: "map img_id (images (state (onload_connected photo ''data:3'' 9 steady (Inr answer)
        (connected tripsOpen))))
     = [''img-9'', ''img-1'', ''img-2'']"
    by (simp add: onload_connected_def analyzeImage_remote_def addImage_def
        newItem_connected_def connected_def gallery_def stored string_of_nat_9)
  have d: "map ocr_id (a_texts (analysisOf steady answer)) = [''ocr-0-9'']"
    by (simp add: analysisOf_ids answer_def steady_def string_of_nat.simps digit_def)
  have "distinct (map img_id (images tripsOpen)) \<and> stampedBefore 9 tripsOpen"
    using tripsOpen_stamped by simp
  then have e: "distinct (map img_id (images (addImage
        (newItem_connected photo ''data:3'' 9 (analysisOf steady answer)) tripsOpen)))
      \<and> stampedBefore (Suc 9) (addImage
        (newItem_connected photo ''data:3'' 9 (analysisOf steady answer)) tripsOpen)"
    using item [where a = "analysisOf steady answer", THEN conjunct2, THEN conjunct2,
        THEN conjunct2, THEN conjunct2, THEN conjunct2, THEN conjunct2, THEN conjunct2,
        THEN conjunct2]
    by simp
  from a b c d e show ?thesis by simp
qed

text \<open>
  C7, as the specification states it, fails when the file cannot be read: both apps set
  the flag before the read and reset it only in \<open>reader.onload\<close>, so after a failed read
  the flag stays set.
\<close>

theorem failed_read_leaves_flag_set:
  "isAnalyzing (connected tripsOpen) = False
   \<and> isAnalyzing (handleFileUpload_connected (Some photo) None 9 steady (Inr answer)
        (connected tripsOpen)) = True
   \<and> isAnalyzing (gallery tripsOpen) = False
   \<and> isAnalyzing (handleFileUpload_offline (Some photo) None 9 9 9 9 (gallery tripsOpen))
       = True"
  by (simp add: handleFileUpload_connected_def handleFileUpload_offline_def connected_def
      gallery_def)

text \<open>
  C7 (amended): once the file has been read, the flag \<open>isAnalyzing\<close> is false at the end
  of \<open>onload\<close> whether the analysis succeeded or failed, and in the connected app a failed
  analysis adds no image (the state is unchanged); the analysis of the offline app is
  local and has no failing path. When the read of the file fails, \<open>onload\<close> never runs:
  no image is added and the flag stays set. When no file was chosen nothing changes.
\<close>

theorem analysis_flag_cleared_after_read:
  "isAnalyzing (onload_connected upl b64 now clock outcome app) = False
   \<and> isAnalyzing (handleFileUpload_connected (Some upl) (Some b64) now clock outcome app)
       = False
   \<and> state (onload_connected upl b64 now clock (Inl e) app) = state app
   \<and> state (handleFileUpload_connected (Some upl) (Some b64) now clock (Inl e) app)
       = state app
   \<and> isAnalyzing (onload_offline upl b64 captured now ta tb tc app) = False
   \<and> isAnalyzing (handleFileUpload_offline (Some upl) (Some b64) now ta tb tc app) = False
   \<and> handleFileUpload_connected (Some upl) None now clock outcome app
       = app\<lparr>isAnalyzing := True\<rparr>
   \<and> handleFileUpload_offline (Some upl) None now ta tb tc app = app\<lparr>isAnalyzing := True\<rparr>
   \<and> handleFileUpload_connected None loaded now clock outcome app = app
   \<and> handleFileUpload_offline None loaded now ta tb tc app = app"
  by (simp add: onload_connected_def handleFileUpload_connected_def onload_offline_def
      handleFileUpload_offline_def analyzeImage_remote_def Let_def split: sum.splits)

theorem analysis_flag_cleared_after_read_witness:
  "isAnalyzing (handleFileUpload_connected (Some photo) (Some ''data:3'') 9 steady
      (Inl RequestRejected) (connected tripsOpen)) = False
   \<and> images (state (handleFileUpload_connected (Some photo) (Some ''data:3'') 9 steady
      (Inl ResponseNotJSON) (connected tripsOpen))) = [invoice, beach]
   \<and> isAnalyzing (handleFileUpload_connected (Some photo) (Some ''data:3'') 9 steady
      (Inr answer) (connected tripsOpen)) = False
   \<and> isAnalyzing (handleFileUpload_offline (Some photo) (Some ''data:3'') 9 9 9 9
      (gallery tripsOpen)) = False
   \<and> images (state (handleFileUpload_offline (Some photo) None 9 9 9 9 (gallery tripsOpen)))
       = [invoice, beach]"
proof -
  note cleared = analysis_flag_cleared_after_read
    [where upl = photo and ?b64.0 = "''data:3''" and now = 9 and clock = steady
      and ta = 9 and tb = 9 and tc = 9]
  have st: "state (connected tripsOpen) = tripsOpen" "state (gallery tripsOpen) = tripsOpen"
    by (simp_all add: connected_def gallery_def)
  have imgs: "images tripsOpen = [invoice, beach]"
    by (simp add: tripsOpen_def)
  have a: "isAnalyzing (handleFileUpload_connected (Some photo) (Some ''data:3'') 9 steady
      (Inl RequestRejected) (connected tripsOpen)) = False"
    using cleared [where app = "connected tripsOpen" and outcome = "Inl RequestRejected"]
    by blast
  have b: "images (state (handleFileUpload_connected (Some photo) (Some ''data:3'') 9 steady
      (Inl ResponseNotJSON) (connected tripsOpen))) = [invoice, beach]"
    using cleared [where app = "connected tripsOpen" and e = ResponseNotJSON] st imgs
    by simp
  have c: "isAnalyzing (handleFileUpload_connected (Some photo) (Some ''data:3'') 9 steady
      (Inr answer) (connected tripsOpen)) = False"
    using cleared [where app = "connected tripsOpen" and outcome = "Inr answer"] by blast
  have d: "isAnalyzing (handleFileUpload_offline (Some photo) (Some ''data:3'') 9 9 9 9
      (gallery tripsOpen)) = False"
    using cleared [where app = "gallery tripsOpen"] by blast
  have e: "images (state (handleFileUpload_offline (Some photo) None 9 9 9 9
      (gallery tripsOpen))) = [invoice, beach]"
    using cleared [where app = "gallery tripsOpen"] st imgs by simp
  from a b c d e show ?thesis by (intro conjI)
qed

subsection \<open>Persistence\<close>

lemma those_map_inverse:
  assumes "\<And>x. x \<in> set xs \<Longrightarrow> f (g x) = Some x"
  shows "those (map f (map g xs)) = Some xs"
  using assms by (induction xs) simp_all

lemma text_round_trip:
  assumes "isFinite (ocr_x t)" and "isFinite (ocr_y t)"
  shows "text_of_json (json_of_text t) = Some t"
  using assms
  by (cases "ocr_x t"; cases "ocr_y t")
    (simp_all add: text_of_json_def json_of_text_def str_prop_def num_prop_def
      number_of_json_def json_of_number_def isFinite_def)

lemma folder_round_trip: "folder_of_json (json_of_folder f) = Some f"
  by (cases "folder_name f")
    (simp_all add: folder_of_json_def json_of_folder_def str_prop_def)

lemma image_round_trip:
  assumes "list_all (\<lambda>t. isFinite (ocr_x t) \<and> isFinite (ocr_y t)) (ocrTexts img)"
  shows "image_of_json (json_of_image img) = Some img"
proof -
  have "those (map text_of_json (map json_of_text (ocrTexts img))) = Some (ocrTexts img)"
    using assms by (intro those_map_inverse text_round_trip) (simp_all add: list_all_iff)
  then show ?thesis
    by (cases "folderId img")
      (simp_all add: image_of_json_def json_of_image_def str_prop_def arr_prop_def
        ref_of_props_def)
qed

lemma tree_round_trip:
  assumes "finiteCoordinates s"
  shows "tree_of_json (json_of_state s) = Some s"
proof -
  have "those (map image_of_json (map json_of_image (images s))) = Some (images s)"
    using assms
    by (intro those_map_inverse image_round_trip) (simp add: finiteCoordinates_def list_all_iff)
  moreover have "those (map folder_of_json (map json_of_folder (folders s))) = Some (folders s)"
    by (intro those_map_inverse folder_round_trip)
  ultimately show ?thesis
    by (cases "currentFolderId s")
      (simp_all add: tree_of_json_def json_of_state_def str_prop_def arr_prop_def
        current_of_json_def)
qed

lemma initialState_persist:
  assumes "finiteCoordinates s"
  shows "initialState key dflt (persist key (Tree s) store) = Tree s"
  using tree_round_trip [OF assms]
  by (simp add: initialState_def persist_def JSON_stringify_def JSON_parse_def
      json_of_value_def value_of_json_def)

lemma initialState_absent: "store key = None \<Longrightarrow> initialState key dflt store = Tree dflt"
  by (simp add: initialState_def)

lemma initialState_not_json:
  "store key = Some (NotJSON t) \<Longrightarrow> initialState key dflt store = Tree dflt"
  by (simp add: initialState_def JSON_parse_def)

lemma initialState_document:
  "store key = Some (Document j) \<Longrightarrow> initialState key dflt store = value_of_json j"
  by (simp add: initialState_def JSON_parse_def)

text \<open>
  C5, as the specification states it, fails twice. A stored text that parses is returned
  as parsed, whatever its shape: the empty object \<open>{}\<close> is no tree, yet the initialiser
  returns it and not the default tree. And a tree with a coordinate that is not a number
  does not come back: \<open>JSON.stringify\<close> writes \<open>null\<close> for \<open>NaN\<close>, and what is read is not
  the tree that was written.
\<close>

theorem stored_value_not_restored:
  "initialState_connected [LOCAL_STORAGE_KEY_connected \<mapsto> Document (JObj [])]
     = Other (JObj [])
   \<and> initialState_connected Map.empty = Tree (default_tree ''All Files'')
   \<and> initialState_connected (persist_connected (Tree blurred) Map.empty)
       = Other (json_of_state blurred)"
  by (simp add: initialState_connected_def persist_connected_def initialState_def
      persist_def JSON_stringify_def JSON_parse_def json_of_value_def value_of_json_def
      tree_of_json_def json_of_state_def json_of_image_def json_of_text_def
      json_of_folder_def json_of_number_def image_of_json_def text_of_json_def
      str_prop_def num_prop_def arr_prop_def number_of_json_def blurred_def invoice_def
      default_tree_def)

text \<open>
  C5 (amended): serializing a tree whose text-block coordinates are all finite numbers
  and deserializing the result reproduces an identical tree, in either app; deserializing
  absent data, the empty string or any other text that is not JSON yields the default tree
  (no images, the \<open>all\<close> folder only, current folder \<open>all\<close>, empty search) and raises
  nothing; a stored text that is JSON is returned as parsed, whatever its shape.
\<close>

theorem persistence_round_trip_and_fallback:
  "(finiteCoordinates s
      \<longrightarrow> initialState_connected (persist_connected (Tree s) store) = Tree s
          \<and> initialState_offline (persist_offline (Tree s) store) = Tree s)
   \<and> (store LOCAL_STORAGE_KEY_connected = None
        \<or> store LOCAL_STORAGE_KEY_connected = Some (NotJSON t)
      \<longrightarrow> initialState_connected store = Tree (default_tree ''All Files''))
   \<and> (store LOCAL_STORAGE_KEY_offline = None
        \<or> store LOCAL_STORAGE_KEY_offline = Some (NotJSON t)
      \<longrightarrow> initialState_offline store = Tree (default_tree zh_all_files))
   \<and> (store LOCAL_STORAGE_KEY_connected = Some (Document j)
      \<longrightarrow> initialState_connected store = value_of_json j)
   \<and> (store LOCAL_STORAGE_KEY_offline = Some (Document j)
      \<longrightarrow> initialState_offline store = value_of_json j)
   \<and> images (default_tree allName) = []
   \<and> map folder_id (folders (default_tree allName)) = [''all'']
   \<and> currentFolderId (default_tree allName) = Some ''all''
   \<and> searchQuery (default_tree allName) = []"
proof -
  have "images (default_tree allName) = []
   \<and> map folder_id (folders (default_tree allName)) = [''all'']
   \<and> currentFolderId (default_tree allName) = Some ''all''
   \<and> searchQuery (default_tree allName) = []"
    by (simp add: default_tree_def)
  then show ?thesis
    unfolding initialState_connected_def initialState_offline_def persist_connected_def
      persist_offline_def
    by (auto simp: initialState_absent initialState_not_json initialState_document
        initialState_persist)
qed

lemma tripsOpen_finite: "finiteCoordinates tripsOpen"
  by (simp add: finiteCoordinates_def isFinite_def tripsOpen_def invoice_def beach_def)

theorem persistence_round_trip_and_fallback_witness:
  "initialState_connected (persist_connected (Tree tripsOpen) Map.empty) = Tree tripsOpen
   \<and> initialState_offline (persist_offline (Tree tripsOpen) Map.empty) = Tree tripsOpen
   \<and> initialState_connected Map.empty = Tree (default_tree ''All Files'')
   \<and> initialState_connected [LOCAL_STORAGE_KEY_connected \<mapsto> NotJSON truncatedText]
       = Tree (default_tree ''All Files'')
   \<and> initialState_offline [LOCAL_STORAGE_KEY_offline \<mapsto> NotJSON '''']
       = Tree (default_tree zh_all_files)"
proof -
  note rt = persistence_round_trip_and_fallback
  have a: "initialState_connected (persist_connected (Tree tripsOpen) Map.empty)
             = Tree tripsOpen
           \<and> initialState_offline (persist_offline (Tree tripsOpen) Map.empty)
             = Tree tripsOpen"
    using rt [where s = tripsOpen and store = Map.empty, THEN conjunct1] tripsOpen_finite
    by simp
  have b: "initialState_connected Map.empty = Tree (default_tree ''All Files'')"
    using rt [where store = Map.empty, THEN conjunct2, THEN conjunct1] by simp
  have c: "initialState_connected [LOCAL_STORAGE_KEY_connected \<mapsto> NotJSON truncatedText]
       = Tree (default_tree ''All Files'')"
    using rt [where store = "[LOCAL_STORAGE_KEY_connected \<mapsto> NotJSON truncatedText]"
        and t = truncatedText, THEN conjunct2, THEN conjunct1] by simp
  have d: "initialState_offline [LOCAL_STORAGE_KEY_offline \<mapsto> NotJSON '''']
       = Tree (default_tree zh_all_files)"
    using rt [where store = "[LOCAL_STORAGE_KEY_offline \<mapsto> NotJSON '''']" and t = "''''",
        THEN conjunct2, THEN conjunct2, THEN conjunct1] by simp
  from a b c d show ?thesis by simp
qed

end
